theory Spec2Isabelle
  imports Complex_Main "HOL-Library.Product_Lexorder" "HOL-Library.Multiset"
begin

section \<open>The course-ranking pipeline of \<^verbatim>\<open>process_data.py\<close>\<close>

text \<open>
  The program is one function, \<^verbatim>\<open>main\<close>: it opens a workbook, parses its first sheet
  with the second physical row as the header, takes the columns at positions 11 to 18,
  derives a course name from each header, skips the first body row, coerces the cells to
  numbers, drops the rows with a missing value, computes mean and count per column, sorts,
  writes a CSV file and renders a bar chart.

  Modelling decisions.
  \<^item> The parsed sheet (\<^verbatim>\<open>df\<close>) is the input: its column labels and its body rows.
    Whether the file exists, and whether opening or parsing it raises, is part of the input.
  \<^item> Cells have an arbitrary type \<open>'c\<close>; the coercion \<^verbatim>\<open>pd.to_numeric(errors='coerce')\<close>
    is a parameter \<open>tn :: 'c \<Rightarrow> flt\<close> applied cell by cell.
  \<^item> Numbers are 64-bit floats (\<open>flt\<close>): NaN, the two infinities, and the finite
    values as the rationals they denote. Addition and division round to the nearest
    float (\<open>round64\<close>), overflow to an infinity, and follow the rules of the
    infinities and of NaN; comparisons (\<open>flt_less\<close>, \<open>flt_eq\<close>) are false as soon as
    one side is NaN. A sum adds its values from the left, as numpy does for fewer than
    eight values; for longer columns numpy groups the additions, which gives the same
    sum whenever no addition rounds.
  \<^item> Exceptions are values of \<open>error\<close>; what the program prints, and the files it
    writes, are fields of the record that \<open>main\<close> returns.
\<close>

subsection \<open>Strings: \<^verbatim>\<open>sep in s\<close> and \<^verbatim>\<open>s.split(sep)\<close>\<close>

text \<open>\<^verbatim>\<open>s.startswith(sep)\<close>.\<close>

definition startswith :: "string \<Rightarrow> string \<Rightarrow> bool" where
  "startswith s sep = (take (length sep) s = sep)"

text \<open>\<^verbatim>\<open>sep in s\<close>: some suffix of \<open>s\<close> starts with \<open>sep\<close>.\<close>

fun str_contains :: "string \<Rightarrow> string \<Rightarrow> bool" where
  "str_contains sep [] = (sep = [])"
| "str_contains sep (c # cs) = (startswith (c # cs) sep \<or> str_contains sep cs)"

text \<open>
  \<^verbatim>\<open>s.split(sep)\<close> scans from the left for occurrences of \<open>sep\<close> that do not overlap.
  \<open>seg\<close> is the segment read so far. Python raises \<^verbatim>\<open>ValueError\<close> on an empty
  separator; the program only passes \<^verbatim>\<open>" - "\<close>, and the model returns the whole string as
  one segment there.
\<close>

function split_from :: "string \<Rightarrow> string \<Rightarrow> string \<Rightarrow> string list" where
  "split_from sep seg [] = [seg]"
| "split_from sep seg (c # cs) =
     (if sep \<noteq> [] \<and> startswith (c # cs) sep
      then seg # split_from sep [] (drop (length sep) (c # cs))
      else split_from sep (seg @ [c]) cs)"
  by pat_completeness auto
termination
  by (relation "measure (\<lambda>(sep, seg, s). length s)") auto

definition str_split :: "string \<Rightarrow> string \<Rightarrow> string list" where
  "str_split sep s = split_from sep [] s"

text \<open>\<^verbatim>\<open>sep.join(segs)\<close>, used to state what \<open>str_split\<close> returns.\<close>

fun str_join :: "string \<Rightarrow> string list \<Rightarrow> string" where
  "str_join sep [] = []"
| "str_join sep [x] = x"
| "str_join sep (x # y # ys) = x @ sep @ str_join sep (y # ys)"

subsection \<open>Step 3: the course name of a header\<close>

text \<open>
  \<^verbatim>\<open>
    if " - " in col:
        course_names.append(col.split(" - ")[-1])
    else:
        course_names.append(col)
  \<close>
\<close>

definition course_name :: "string \<Rightarrow> string" where
  "course_name col =
     (if str_contains '' - '' col then last (str_split '' - '' col) else col)"

text \<open>
  Following the specification's words, for comparison with \<open>course_name\<close>: the
  substring after the last \<^verbatim>\<open>" - "\<close> of the header, that is after its last occurrence,
  and the whole header when there is none.
\<close>

fun after_last :: "string \<Rightarrow> string \<Rightarrow> string option" where
  "after_last sep [] = (if sep = [] then Some [] else None)"
| "after_last sep (c # cs) =
     (case after_last sep cs of
        Some t \<Rightarrow> Some t
      | None \<Rightarrow> if startswith (c # cs) sep then Some (drop (length sep) (c # cs)) else None)"

definition after_last_separator :: "string \<Rightarrow> string" where
  "after_last_separator col = (case after_last '' - '' col of Some t \<Rightarrow> t | None \<Rightarrow> col)"

subsection \<open>64-bit floats\<close>

text \<open>
  A float is NaN, an infinity, or a finite value, kept as the rational it denotes
  (the two zeros are one value: they compare equal and sort alike).
\<close>

datatype flt = NaN | NegInf | Finite rat | PosInf

text \<open>The number of binary digits of a natural number.\<close>

fun bit_length :: "nat \<Rightarrow> nat" where
  "bit_length n = (if n = 0 then 0 else Suc (bit_length (n div 2)))"

declare bit_length.simps [simp del]

definition pow2 :: "int \<Rightarrow> rat" where
  "pow2 e = (if 0 \<le> e then 2 ^ nat e else 1 / 2 ^ nat (- e))"

text \<open>For \<open>0 < a\<close>, the exponent \<open>E\<close> with \<open>2 ^ E \<le> a < 2 ^ (E + 1)\<close>.\<close>

definition exponent :: "rat \<Rightarrow> int" where
  "exponent a =
     (if 1 \<le> a then int (bit_length (nat \<lfloor>a\<rfloor>)) - 1
      else - int (bit_length (nat (\<lceil>1 / a\<rceil> - 1))))"

definition round_half_even :: "rat \<Rightarrow> int" where
  "round_half_even x =
     (let f = \<lfloor>x\<rfloor>; r = x - of_int f
      in if r < 1 / 2 then f else if 1 / 2 < r then f + 1
         else if even f then f else f + 1)"

text \<open>
  Rounding a positive rational to binary64: 53 significant bits, the least exponent
  of a bit \<open>- 1074\<close>, ties to even, and an infinity from \<open>2 ^ 1024\<close> on.
\<close>

definition round_pos :: "rat \<Rightarrow> flt" where
  "round_pos a =
     (let e = max (exponent a - 52) (- 1074);
          m = round_half_even (a / pow2 e);
          v = of_int m * pow2 e
      in if 2 ^ 1024 \<le> v then PosInf else Finite v)"

fun fneg :: "flt \<Rightarrow> flt" where
  "fneg NaN = NaN"
| "fneg NegInf = PosInf"
| "fneg (Finite a) = Finite (- a)"
| "fneg PosInf = NegInf"

definition round64 :: "rat \<Rightarrow> flt" where
  "round64 q =
     (if q = 0 then Finite 0 else if 0 < q then round_pos q else fneg (round_pos (- q)))"

text \<open>Float addition: \<open>inf + (- inf)\<close> is NaN.\<close>

fun fadd :: "flt \<Rightarrow> flt \<Rightarrow> flt" where
  "fadd (Finite a) (Finite b) = round64 (a + b)"
| "fadd NaN _ = NaN"
| "fadd _ NaN = NaN"
| "fadd PosInf NegInf = NaN"
| "fadd NegInf PosInf = NaN"
| "fadd PosInf _ = PosInf"
| "fadd _ PosInf = PosInf"
| "fadd NegInf _ = NegInf"
| "fadd _ NegInf = NegInf"

text \<open>Division of a float by a positive count.\<close>

fun fdiv :: "flt \<Rightarrow> nat \<Rightarrow> flt" where
  "fdiv (Finite a) n = round64 (a / of_nat n)"
| "fdiv x n = x"

definition fsum :: "flt list \<Rightarrow> flt" where
  "fsum xs = foldl fadd (Finite 0) xs"

text \<open>The comparisons \<^verbatim>\<open><\<close> and \<^verbatim>\<open>==\<close> of floats: false on NaN.\<close>

fun flt_less :: "flt \<Rightarrow> flt \<Rightarrow> bool" where
  "flt_less NaN _ = False"
| "flt_less _ NaN = False"
| "flt_less (Finite a) (Finite b) = (a < b)"
| "flt_less _ NegInf = False"
| "flt_less NegInf _ = True"
| "flt_less PosInf _ = False"
| "flt_less _ PosInf = True"

fun flt_eq :: "flt \<Rightarrow> flt \<Rightarrow> bool" where
  "flt_eq NaN _ = False"
| "flt_eq _ NaN = False"
| "flt_eq x y = (x = y)"

subsection \<open>The parsed sheet, errors and effects\<close>

text \<open>
  A column label of the parsed sheet is a string when the header cell holds text;
  a header cell holding a number or a date gives a label that is not a string.
\<close>

datatype label = Str string | NonStr

record 'c dataframe =
  columns :: "label list"
  body :: "'c list list"

text \<open>
  What \<^verbatim>\<open>pd.ExcelFile(file_path)\<close> and \<^verbatim>\<open>xl.parse(xl.sheet_names[0], header=1)\<close>
  meet: no file, a file they cannot read (any exception other than
  \<^verbatim>\<open>FileNotFoundError\<close>), or a sheet.
\<close>

datatype 'c input_file = NotFound | Unreadable | Workbook "'c dataframe"

datatype error = ReadError | IndexError | TypeError

record ranking_row =
  Course :: string
  Average_Rating :: flt
  Count :: nat

text \<open>The \<^verbatim>\<open>print\<close> calls of \<^verbatim>\<open>main\<close>, in the order of the source.\<close>

datatype event =
    Loading_data
  | Error_file_not_found
  | Identified_courses "string list"
  | Data_cleaning nat nat nat
  | Ranking_calculated "ranking_row list"
  | Saved_ranking
  | Saved_plot

datatype exit_status = Completed | Returned_early | Raised error

text \<open>
  The effects of one run: how it ended, what it printed, whether \<^verbatim>\<open>results/\<close> was
  created, the table written to \<^verbatim>\<open>results/program_ranking.csv\<close> and the bars of
  \<^verbatim>\<open>results/program_ranking.png\<close>, bottom bar first.
\<close>

record run =
  status :: exit_status
  printed :: "event list"
  results_dir :: bool
  csv :: "ranking_row list option"
  png :: "(string \<times> flt) list option"

subsection \<open>Steps 2 to 5: selection, coercion, cleaning\<close>

definition target_cols_indices :: "nat list" where
  "target_cols_indices = [11..<19]"

text \<open>\<^verbatim>\<open>df.columns[target_cols_indices]\<close>: an index out of range raises.\<close>

definition target_cols :: "label list \<Rightarrow> error + label list" where
  "target_cols cols =
     (if list_all (\<lambda>i. i < length cols) target_cols_indices
      then Inr (map (\<lambda>i. cols ! i) target_cols_indices)
      else Inl IndexError)"

text \<open>
  The loop over \<^verbatim>\<open>target_cols\<close>; \<^verbatim>\<open>" - " in col\<close> raises \<^verbatim>\<open>TypeError\<close> when
  \<^verbatim>\<open>col\<close> is not a string.
\<close>

fun course_names :: "label list \<Rightarrow> error + string list" where
  "course_names [] = Inr []"
| "course_names (NonStr # cols) = Inl TypeError"
| "course_names (Str col # cols) =
     (case course_names cols of
        Inl e \<Rightarrow> Inl e
      | Inr names \<Rightarrow> Inr (course_name col # names))"

text \<open>\<^verbatim>\<open>df.iloc[1:, target_cols_indices]\<close>: every body row but the first, eight cells each.\<close>

definition iloc :: "'c dataframe \<Rightarrow> 'c list list" where
  "iloc df = map (\<lambda>row. map (\<lambda>i. row ! i) target_cols_indices) (drop 1 (body df))"

text \<open>\<^verbatim>\<open>data.apply(pd.to_numeric, errors='coerce')\<close>.\<close>

definition apply_to_numeric :: "('c \<Rightarrow> flt) \<Rightarrow> 'c list list \<Rightarrow> flt list list" where
  "apply_to_numeric tn data = map (map tn) data"

text \<open>\<^verbatim>\<open>data.dropna()\<close>: the rows without a NaN; an infinity is not missing.\<close>

definition notna :: "flt \<Rightarrow> bool" where
  "notna v = (v \<noteq> NaN)"

definition dropna :: "flt list list \<Rightarrow> flt list list" where
  "dropna data = filter (list_all notna) data"

subsection \<open>Step 6: mean and count per column\<close>

definition column :: "nat \<Rightarrow> flt list list \<Rightarrow> flt list" where
  "column j data = map (\<lambda>row. row ! j) data"

text \<open>
  \<^verbatim>\<open>Series.mean()\<close> skips NaN, is NaN when nothing is left, and is otherwise the float
  sum of the values divided by their number.
\<close>

definition mean :: "flt list \<Rightarrow> flt" where
  "mean xs =
     (let vs = filter notna xs
      in if vs = [] then NaN else fdiv (fsum vs) (length vs))"

text \<open>\<^verbatim>\<open>Series.count()\<close>: the number of values that are not NaN.\<close>

definition count :: "flt list \<Rightarrow> nat" where
  "count xs = length (filter notna xs)"

text \<open>
  \<^verbatim>\<open>pd.DataFrame({'Average Rating': data.mean(), 'Count': data.count()})\<close>: one row per
  column of \<^verbatim>\<open>data\<close>, in column order, indexed by the course name.
\<close>

definition stats_frame :: "string list \<Rightarrow> flt list list \<Rightarrow> ranking_row list" where
  "stats_frame names data =
     map (\<lambda>j. \<lparr>Course = names ! j,
               Average_Rating = mean (column j data),
               Count = count (column j data)\<rparr>) [0..<length names]"

subsection \<open>Step 7: the sort\<close>

text \<open>
  \<^verbatim>\<open>stats.sort_values(by=['Average Rating', 'Count'], ascending=[True, False])\<close>.
  With several keys pandas sorts stably on the tuple of keys; in an ascending key the
  floats come in their order, \<open>- inf\<close> first and \<open>inf\<close> last, and NaN after them all.
  The key below is that tuple: the place of the average among the floats, and the
  negated count, compared lexicographically.
\<close>

fun float_key :: "flt \<Rightarrow> nat \<times> rat" where
  "float_key NegInf = (0, 0)"
| "float_key (Finite a) = (1, a)"
| "float_key PosInf = (2, 0)"
| "float_key NaN = (3, 0)"

definition sort_key_of :: "ranking_row \<Rightarrow> (nat \<times> rat) \<times> int" where
  "sort_key_of r = (float_key (Average_Rating r), - int (Count r))"

definition sort_values :: "ranking_row list \<Rightarrow> ranking_row list" where
  "sort_values rows = sort_key sort_key_of rows"

text \<open>The sorting property of the specification, on one pair of rows.\<close>

definition in_rank_order :: "ranking_row \<Rightarrow> ranking_row \<Rightarrow> bool" where
  "in_rank_order a b =
     (flt_less (Average_Rating a) (Average_Rating b) \<or>
      (flt_eq (Average_Rating a) (Average_Rating b) \<and> Count b \<le> Count a))"

subsection \<open>Step 9: the chart\<close>

text \<open>\<^verbatim>\<open>stats.iloc[::-1]\<close>.\<close>

definition plot_data :: "ranking_row list \<Rightarrow> ranking_row list" where
  "plot_data stats = rev stats"

text \<open>
  \<^verbatim>\<open>plt.barh(plot_data['Course'], plot_data['Average Rating'])\<close>: the bars, the first
  one at the bottom of the chart.
\<close>

definition barh :: "ranking_row list \<Rightarrow> (string \<times> flt) list" where
  "barh rows = zip (map Course rows) (map Average_Rating rows)"

subsection \<open>\<^verbatim>\<open>main\<close>\<close>

definition raise :: "error \<Rightarrow> event list \<Rightarrow> run" where
  "raise e out =
     \<lparr>status = Raised e, printed = out, results_dir = False, csv = None, png = None\<rparr>"

text \<open>The rows left after cleaning: lines 40 to 50 of the source.\<close>

definition cleaned :: "('c \<Rightarrow> flt) \<Rightarrow> 'c dataframe \<Rightarrow> flt list list" where
  "cleaned tn df = dropna (apply_to_numeric tn (iloc df))"

text \<open>The table after the sort: lines 55 to 64 of the source.\<close>

definition ranking :: "string list \<Rightarrow> flt list list \<Rightarrow> ranking_row list" where
  "ranking names data = sort_values (stats_frame names data)"

definition main :: "('c \<Rightarrow> flt) \<Rightarrow> 'c input_file \<Rightarrow> run" where
  "main tn file =
     (case file of
        NotFound \<Rightarrow>
          \<lparr>status = Returned_early, printed = [Loading_data, Error_file_not_found],
           results_dir = False, csv = None, png = None\<rparr>
      | Unreadable \<Rightarrow> raise ReadError [Loading_data]
      | Workbook df \<Rightarrow>
          (case target_cols (columns df) of
             Inl e \<Rightarrow> raise e [Loading_data]
           | Inr cols \<Rightarrow>
               (case course_names cols of
                  Inl e \<Rightarrow> raise e [Loading_data]
                | Inr names \<Rightarrow>
                    (let initial_count = length (iloc df);
                         data = cleaned tn df;
                         final_count = length data;
                         stats = ranking names data
                     in \<lparr>status = Completed,
                         printed = [Loading_data, Identified_courses names,
                                    Data_cleaning initial_count final_count
                                      (initial_count - final_count),
                                    Ranking_calculated stats, Saved_ranking, Saved_plot],
                         results_dir = True,
                         csv = Some stats,
                         png = Some (barh (plot_data stats))\<rparr>))))"

subsection \<open>Concrete sheets\<close>

text \<open>
  The cells a sheet holds in the examples: a number, a text, or nothing. A number
  coerces to the float nearest to it, an empty cell to NaN, a text to what the text
  parser \<open>p\<close> makes of it.
\<close>

datatype cell = Number rat | Text string | Empty

fun to_numeric :: "(string \<Rightarrow> flt) \<Rightarrow> cell \<Rightarrow> flt" where
  "to_numeric p (Number r) = round64 r"
| "to_numeric p (Text s) = p s"
| "to_numeric p Empty = NaN"

text \<open>
  The text parser of the examples reads \<^verbatim>\<open>inf\<close>, \<^verbatim>\<open>-inf\<close> and unsigned decimal
  integers, and nothing else. \<^verbatim>\<open>pd.to_numeric\<close> reads more (signs, fractions,
  exponents), and agrees with it on every text that occurs below.
\<close>

definition digit :: "char \<Rightarrow> nat option" where
  "digit c =
     (let code = (of_char c :: nat)
      in if 48 \<le> code \<and> code \<le> 57 then Some (code - 48) else None)"

fun digits :: "nat \<Rightarrow> string \<Rightarrow> nat option" where
  "digits n [] = Some n"
| "digits n (c # cs) =
     (case digit c of None \<Rightarrow> None | Some d \<Rightarrow> digits (10 * n + d) cs)"

definition unsigned_decimal :: "string \<Rightarrow> flt" where
  "unsigned_decimal s =
     (if s = [] then NaN
      else case digits 0 s of None \<Rightarrow> NaN | Some n \<Rightarrow> round64 (of_nat n))"

definition text_to_float :: "string \<Rightarrow> flt" where
  "text_to_float s =
     (if s = ''inf'' then PosInf else if s = ''-inf'' then NegInf else unsigned_decimal s)"

definition survey_columns :: "label list" where
  "survey_columns =
     replicate 11 (Str ''Respondent'') @
     [Str ''Q35_1 - Taxation'', Str ''Q35_2 - Audit'', Str ''Ethics'',
      Str ''Q35_4 - Strategy'', Str ''Q35_5 - Finance'', Str ''Q35_6 - Law'',
      Str ''Q35_7 - Data'', Str ''Q35_8 - Tax - Research'']"

text \<open>A body row: eleven cells of other questions, then the eight ratings.\<close>

definition answers :: "cell list \<Rightarrow> cell list" where
  "answers ratings = replicate 11 Empty @ ratings"

definition import_ids :: "cell list" where
  "import_ids = replicate 19 (Text ''{ImportId:QID35}'')"

text \<open>Three respondents; the second left the last rating as \<^verbatim>\<open>N/A\<close>.\<close>

definition survey :: "cell dataframe" where
  "survey =
     \<lparr>columns = survey_columns,
      body =
        [import_ids,
         answers [Number 3, Number 1, Number 2, Number 4,
                  Number 5, Number 6, Number 7, Number 8],
         answers [Number 1, Number 2, Number 3, Number 4,
                  Number 5, Number 6, Number 7, Text ''N/A''],
         answers [Number 2, Number 1, Text ''3'', Number 4,
                  Number 5, Number 6, Number 8, Number 7]]\<rparr>"

text \<open>The same sheet when no respondent gave a number.\<close>

definition unanswered :: "cell dataframe" where
  "unanswered =
     \<lparr>columns = survey_columns,
      body = [import_ids, answers (replicate 8 (Text ''N/A'')), answers (replicate 8 Empty)]\<rparr>"

text \<open>Two respondents whose first rating reads \<^verbatim>\<open>inf\<close> and \<^verbatim>\<open>-inf\<close>.\<close>

definition unbounded :: "cell dataframe" where
  "unbounded =
     \<lparr>columns = survey_columns,
      body =
        [import_ids,
         answers [Text ''inf'', Number 1, Number 2, Number 4,
                  Number 5, Number 6, Number 7, Number 8],
         answers [Text ''-inf'', Number 1, Number 3, Number 4,
                  Number 5, Number 6, Number 8, Number 7]]\<rparr>"


text \<open>The survey with two headers that end in the same course name.\<close>

definition duplicated :: "cell dataframe" where
  "duplicated =
     survey\<lparr>columns :=
       replicate 11 (Str ''Respondent'') @
       [Str ''Q35_1 - Tax'', Str ''Q35_2 - Tax'', Str ''Ethics'',
        Str ''Q35_4 - Strategy'', Str ''Q35_5 - Finance'', Str ''Q35_6 - Law'',
        Str ''Q35_7 - Data'', Str ''Q35_8 - Research'']\<rparr>"

section \<open>Properties\<close>

subsection \<open>Splitting a header\<close>

lemma split_from_not_Nil: "split_from sep seg s \<noteq> []"
  by (induction sep seg s rule: split_from.induct) auto

lemma split_from_no_sep:
  "\<not> str_contains sep s \<Longrightarrow> split_from sep seg s = [seg @ s]"
  by (induction sep seg s rule: split_from.induct) auto

lemma join_split_from: "str_join sep (split_from sep seg s) = seg @ s"
proof (induction sep seg s rule: split_from.induct)
  case (1 sep seg)
  then show ?case by simp
next
  case (2 sep seg c cs)
  show ?case
  proof (cases "sep \<noteq> [] \<and> startswith (c # cs) sep")
    case True
    obtain y ys where ys: "split_from sep [] (drop (length sep) (c # cs)) = y # ys"
      using split_from_not_Nil by (cases "split_from sep [] (drop (length sep) (c # cs))") auto
    have "sep @ drop (length sep) (c # cs) = c # cs"
      using True by (metis append_take_drop_id startswith_def)
    then show ?thesis using True 2(1) ys by simp
  next
    case False
    then show ?thesis using 2(2) by auto
  qed
qed

lemma str_contains_iff:
  "str_contains sep s \<longleftrightarrow> (\<exists>k\<le>length s. startswith (drop k s) sep)"
proof (induction s)
  case Nil
  then show ?case by (auto simp: startswith_def)
next
  case (Cons c cs)
  show ?case
  proof
    assume "str_contains sep (c # cs)"
    then consider "startswith (c # cs) sep" | "str_contains sep cs" by auto
    then show "\<exists>k\<le>length (c # cs). startswith (drop k (c # cs)) sep"
    proof cases
      case 1
      then have "startswith (drop 0 (c # cs)) sep" by simp
      then show ?thesis by blast
    next
      case 2
      then obtain k where "k \<le> length cs" "startswith (drop k cs) sep"
        using Cons.IH by blast
      then have "Suc k \<le> length (c # cs) \<and> startswith (drop (Suc k) (c # cs)) sep" by simp
      then show ?thesis by blast
    qed
  next
    assume "\<exists>k\<le>length (c # cs). startswith (drop k (c # cs)) sep"
    then obtain k where k: "k \<le> length (c # cs)" "startswith (drop k (c # cs)) sep" by blast
    show "str_contains sep (c # cs)"
    proof (cases k)
      case 0
      then show ?thesis using k by simp
    next
      case (Suc j)
      then have "j \<le> length cs \<and> startswith (drop j cs) sep" using k by simp
      then show ?thesis using Cons.IH by auto
    qed
  qed
qed

lemma last_split_from_no_sep:
  "sep \<noteq> [] \<Longrightarrow> \<forall>k<length seg. \<not> startswith (drop k (seg @ s)) sep \<Longrightarrow>
   \<not> str_contains sep (last (split_from sep seg s))"
proof (induction sep seg s rule: split_from.induct)
  case (1 sep seg)
  have "\<not> startswith (drop k seg) sep" if "k \<le> length seg" for k
  proof (cases "k < length seg")
    case True
    then show ?thesis using 1(2) by simp
  next
    case False
    then have "drop k seg = []" using that by simp
    then show ?thesis using 1(1) by (simp add: startswith_def)
  qed
  then show ?case by (simp add: str_contains_iff)
next
  case (2 sep seg c cs)
  show ?case
  proof (cases "startswith (c # cs) sep")
    case True
    have "\<not> str_contains sep (last (split_from sep [] (drop (length sep) (c # cs))))"
      using 2(1) 2(3) True by simp
    then show ?thesis using True 2(3) split_from_not_Nil by simp
  next
    case False
    have "\<forall>k<length (seg @ [c]). \<not> startswith (drop k ((seg @ [c]) @ cs)) sep"
    proof (intro allI impI)
      fix k assume "k < length (seg @ [c])"
      then consider "k < length seg" | "k = length seg" by fastforce
      then show "\<not> startswith (drop k ((seg @ [c]) @ cs)) sep"
      proof cases
        case 1
        then show ?thesis using 2(4) by simp
      next
        case 2
        then show ?thesis using False by simp
      qed
    qed
    then have "\<not> str_contains sep (last (split_from sep (seg @ [c]) cs))"
      using 2(2) 2(3) False by simp
    then show ?thesis using False by simp
  qed
qed

lemma course_name_eq_last: "course_name col = last (str_split '' - '' col)"
  by (simp add: course_name_def str_split_def split_from_no_sep)

lemma str_join_butlast:
  "2 \<le> length segs \<Longrightarrow> str_join sep segs = str_join sep (butlast segs) @ sep @ last segs"
proof (induction sep segs rule: str_join.induct)
  case (1 sep)
  then show ?case by simp
next
  case (2 sep x)
  then show ?case by simp
next
  case (3 sep x y ys)
  show ?case
  proof (cases ys)
    case Nil
    then show ?thesis by simp
  next
    case (Cons z zs)
    then show ?thesis using 3 by simp
  qed
qed

lemma split_from_two_segments:
  "sep \<noteq> [] \<Longrightarrow> str_contains sep s \<Longrightarrow> 2 \<le> length (split_from sep seg s)"
proof (induction sep seg s rule: split_from.induct)
  case (1 sep seg)
  then show ?case by simp
next
  case (2 sep seg c cs)
  show ?case
  proof (cases "startswith (c # cs) sep")
    case True
    have "1 \<le> length (split_from sep [] (drop (length sep) (c # cs)))"
      using split_from_not_Nil [of sep "[]" "drop (length sep) (c # cs)"]
      by (cases "split_from sep [] (drop (length sep) (c # cs))") auto
    then show ?thesis using True 2(3) by simp
  next
    case False
    then show ?thesis using 2 by simp
  qed
qed

lemma course_name_after_last_separator:
  assumes "str_contains '' - '' col"
  shows "col = str_join '' - '' (butlast (str_split '' - '' col)) @ '' - '' @ course_name col"
proof -
  have "2 \<le> length (str_split '' - '' col)"
    using assms by (simp add: str_split_def split_from_two_segments)
  then have "str_join '' - '' (str_split '' - '' col) =
      str_join '' - '' (butlast (str_split '' - '' col)) @ '' - '' @ last (str_split '' - '' col)"
    by (rule str_join_butlast)
  then show ?thesis
    by (simp add: course_name_eq_last) (simp add: str_split_def join_split_from)
qed

subsection \<open>The name after the last occurrence of the separator\<close>

lemma str_contains_drop: "\<not> str_contains sep s \<Longrightarrow> \<not> str_contains sep (drop n s)"
proof (induction n arbitrary: s)
  case 0
  then show ?case by simp
next
  case (Suc n)
  then show ?case by (cases s) auto
qed

lemma after_last_at_separator:
  assumes "startswith s '' - ''" and "\<not> str_contains '' - - '' s"
  shows "after_last '' - '' s =
     (case after_last '' - '' (drop 3 s) of Some t \<Rightarrow> Some t | None \<Rightarrow> Some (drop 3 s))"
proof -
  obtain rest where s: "s = CHR '' '' # CHR ''-'' # CHR '' '' # rest"
    using assms(1)
    by (cases s; cases "tl s"; cases "tl (tl s)") (auto simp: startswith_def)
  have "\<not> startswith (CHR '' '' # rest) '' - ''"
  proof
    assume "startswith (CHR '' '' # rest) '' - ''"
    then have "startswith s '' - - ''"
      by (cases rest; cases "tl rest") (auto simp: s startswith_def)
    then have "str_contains '' - - '' s" by (simp add: s)
    then show False using assms(2) by simp
  qed
  then show ?thesis
    by (simp add: s startswith_def split: option.splits)
qed

lemma last_split_from_after_last:
  assumes "sep = '' - ''" and "\<not> str_contains '' - - '' s"
  shows "last (split_from sep seg s) =
     (case after_last sep s of Some t \<Rightarrow> t | None \<Rightarrow> seg @ s)"
  using assms
proof (induction sep seg s rule: split_from.induct)
  case (1 sep seg)
  then show ?case by simp
next
  case (2 sep seg c cs)
  have sep: "sep = '' - ''" by (rule 2(3))
  have len: "length sep = 3" by (simp add: sep)
  show ?case
  proof (cases "startswith (c # cs) sep")
    case True
    define rest where "rest = drop (length sep) (c # cs)"
    have r3: "rest = drop 3 (c # cs)" by (simp only: rest_def len)
    have n: "\<not> str_contains '' - - '' rest"
      unfolding rest_def using 2(4) by (rule str_contains_drop)
    have "sep \<noteq> [] \<and> startswith (c # cs) sep" using True sep by simp
    then have ih: "last (split_from sep [] rest) =
        (case after_last sep rest of Some t \<Rightarrow> t | None \<Rightarrow> [] @ rest)"
      unfolding rest_def using 2(1) sep n [unfolded rest_def] by blast
    have "after_last '' - '' (c # cs) =
        (case after_last '' - '' (drop 3 (c # cs)) of
           Some t \<Rightarrow> Some t | None \<Rightarrow> Some (drop 3 (c # cs)))"
      using True 2(4) unfolding sep by (rule after_last_at_separator)
    then have al: "after_last sep (c # cs) =
        (case after_last sep rest of Some t \<Rightarrow> Some t | None \<Rightarrow> Some rest)"
      by (simp only: r3 sep)
    have sp: "split_from sep seg (c # cs) = seg # split_from sep [] rest"
      using True sep by (simp add: rest_def)
    have "last (split_from sep seg (c # cs)) = last (split_from sep [] rest)"
      by (simp only: sp) (simp add: split_from_not_Nil)
    then show ?thesis
      by (simp only: ih al) (simp split: option.splits)
  next
    case False
    have n: "\<not> str_contains '' - - '' cs" using 2(4) by simp
    have "\<not> (sep \<noteq> [] \<and> startswith (c # cs) sep)" using False by simp
    then have ih: "last (split_from sep (seg @ [c]) cs) =
        (case after_last sep cs of Some t \<Rightarrow> t | None \<Rightarrow> (seg @ [c]) @ cs)"
      using 2(2) sep n by blast
    have "last (split_from sep seg (c # cs)) = last (split_from sep (seg @ [c]) cs)"
      using False by simp
    then show ?thesis using ih False by (simp split: option.splits)
  qed
qed

lemma course_name_after_last_occurrence:
  "\<not> str_contains '' - - '' col \<Longrightarrow> course_name col = after_last_separator col"
  using last_split_from_after_last [of "'' - ''" col "[]"]
  by (simp add: course_name_eq_last str_split_def after_last_separator_def split: option.splits)

subsection \<open>Floats\<close>

lemma floor_divide_numeral_rat:
  "\<lfloor>numeral a / numeral b :: rat\<rfloor> = numeral a div numeral b"
  by (metis floor_divide_of_int_eq of_int_numeral)

lemma floor_one_divide_numeral_rat:
  "\<lfloor>1 / numeral b :: rat\<rfloor> = 1 div numeral b"
  by (metis floor_divide_of_int_eq of_int_numeral of_int_1)

lemma ceiling_divide_numeral_rat:
  "\<lceil>numeral a / numeral b :: rat\<rceil> = - (- numeral a div numeral b)"
  using ceiling_divide_eq_div [of "numeral a" "numeral b"]
  by (metis ceiling_def floor_divide_of_int_eq minus_divide_left of_int_minus of_int_numeral)

lemmas float_eval = round64_def round_pos_def exponent_def round_half_even_def pow2_def bit_length.simps
  Let_def floor_divide_numeral_rat floor_one_divide_numeral_rat ceiling_divide_numeral_rat









subsection \<open>The steps of the pipeline\<close>

lemma target_cols_indices_eq: "target_cols_indices = [11, 12, 13, 14, 15, 16, 17, 18]"
  unfolding target_cols_indices_def by (simp add: upt_rec)

lemma length_target_cols_indices: "length target_cols_indices = 8"
  by (simp add: target_cols_indices_def)

lemma target_cols_Inr: "target_cols cols = Inr tc \<Longrightarrow> length tc = 8 \<and> 19 \<le> length cols"
  by (auto simp: target_cols_def target_cols_indices_eq split: if_splits)

lemma target_cols_Inl: "target_cols cols = Inl e \<Longrightarrow> e = IndexError \<and> length cols < 19"
  by (auto simp: target_cols_def target_cols_indices_eq split: if_splits)

lemma target_cols_long:
  "19 \<le> length cols \<Longrightarrow> target_cols cols = Inr (map (\<lambda>i. cols ! i) target_cols_indices)"
  by (auto simp: target_cols_def target_cols_indices_eq)

lemma course_names_Inr:
  "course_names cols = Inr names \<Longrightarrow> length names = length cols \<and> NonStr \<notin> set cols"
proof (induction cols arbitrary: names rule: course_names.induct)
  case 1
  then show ?case by simp
next
  case (2 cols)
  then show ?case by simp
next
  case (3 col cols)
  then show ?case by (auto split: sum.splits)
qed

lemma course_names_Inl:
  "course_names cols = Inl e \<Longrightarrow> e = TypeError \<and> NonStr \<in> set cols"
  by (induction cols rule: course_names.induct) (auto split: sum.splits)

lemma course_names_all_Str:
  "NonStr \<notin> set cols \<Longrightarrow> \<exists>names. course_names cols = Inr names"
  by (induction cols rule: course_names.induct) (auto split: sum.splits)

lemma iloc_row_length: "row \<in> set (iloc df) \<Longrightarrow> length row = 8"
  by (auto simp: iloc_def length_target_cols_indices)

lemma cleaned_row:
  "row \<in> set (cleaned tn df) \<Longrightarrow> length row = 8 \<and> list_all notna row"
  by (auto simp: cleaned_def dropna_def apply_to_numeric_def dest: iloc_row_length)

lemma column_cleaned_notna:
  assumes "j < 8"
  shows "filter notna (column j (cleaned tn df)) = column j (cleaned tn df)"
proof -
  have "notna (row ! j)" if "row \<in> set (cleaned tn df)" for row
    using cleaned_row [OF that] assms by (simp add: list_all_length)
  then show ?thesis by (simp add: column_def)
qed

lemma count_column_cleaned:
  "j < 8 \<Longrightarrow> count (column j (cleaned tn df)) = length (cleaned tn df)"
  by (simp add: count_def column_cleaned_notna) (simp add: column_def)

lemma mean_column_cleaned:
  "j < 8 \<Longrightarrow> mean (column j (cleaned tn df)) =
     (if cleaned tn df = [] then NaN
      else fdiv (fsum (column j (cleaned tn df))) (length (cleaned tn df)))"
  by (simp add: mean_def column_cleaned_notna) (simp add: column_def)

lemma main_Workbook:
  assumes "target_cols (columns df) = Inr cols" and "course_names cols = Inr names"
  shows "main tn (Workbook df) =
     \<lparr>status = Completed,
      printed = [Loading_data, Identified_courses names,
                 Data_cleaning (length (iloc df)) (length (cleaned tn df))
                   (length (iloc df) - length (cleaned tn df)),
                 Ranking_calculated (ranking names (cleaned tn df)), Saved_ranking, Saved_plot],
      results_dir = True,
      csv = Some (ranking names (cleaned tn df)),
      png = Some (barh (plot_data (ranking names (cleaned tn df))))\<rparr>"
  using assms by (simp add: main_def Let_def)

lemma main_Completed:
  assumes "status (main tn file) = Completed"
  shows "\<exists>df cols names. file = Workbook df \<and> target_cols (columns df) = Inr cols \<and>
           course_names cols = Inr names"
  using assms by (auto simp: main_def raise_def split: input_file.splits sum.splits)

lemma stats_frame_row:
  assumes "length names = 8" and "r \<in> set (stats_frame names (cleaned tn df))"
  shows "Count r = length (cleaned tn df) \<and>
         (cleaned tn df = [] \<longrightarrow> Average_Rating r = NaN)"
  using assms
  by (auto simp: stats_frame_def count_column_cleaned mean_column_cleaned split: if_splits)

lemma length_stats_frame: "length (stats_frame names data) = length names"
  by (simp add: stats_frame_def)

lemma map_Course_stats_frame: "map Course (stats_frame names data) = names"
  by (simp add: stats_frame_def map_nth comp_def)

subsection \<open>The sort\<close>

lemma float_key_inj: "float_key x = float_key y \<longleftrightarrow> x = y"
  by (cases x; cases y) auto

lemma sort_key_of_eq_iff:
  "sort_key_of r = sort_key_of r' \<longleftrightarrow>
     Average_Rating r = Average_Rating r' \<and> Count r = Count r'"
  by (auto simp: sort_key_of_def float_key_inj)

lemma float_key_less:
  assumes "float_key x < float_key y" and "y \<noteq> NaN"
  shows "flt_less x y"
  using assms by (cases x; cases y) (auto simp: less_prod_def)

lemma sort_key_of_le:
  assumes "sort_key_of a \<le> sort_key_of b"
    and "Average_Rating a \<noteq> NaN" and "Average_Rating b \<noteq> NaN"
  shows "in_rank_order a b"
proof -
  define ka where "ka = float_key (Average_Rating a)"
  define kb where "kb = float_key (Average_Rating b)"
  have "(ka, - int (Count a)) \<le> (kb, - int (Count b))"
    using assms(1) by (simp add: sort_key_of_def ka_def kb_def)
  then have "ka < kb \<or> (ka \<le> kb \<and> - int (Count a) \<le> - int (Count b))"
    by (simp only: less_eq_prod_def fst_conv snd_conv)
  then consider "ka < kb" | "ka = kb" "Count b \<le> Count a"
    by (auto simp: order.order_iff_strict)
  then consider "float_key (Average_Rating a) < float_key (Average_Rating b)"
    | "float_key (Average_Rating a) = float_key (Average_Rating b)" "Count b \<le> Count a"
    unfolding ka_def kb_def by blast
  then show ?thesis
  proof cases
    case 1
    then show ?thesis using assms(3) by (simp add: in_rank_order_def float_key_less)
  next
    case 2
    then have "Average_Rating a = Average_Rating b" by (simp add: float_key_inj)
    then have "flt_eq (Average_Rating a) (Average_Rating b)"
      using assms(2) by (cases "Average_Rating b") auto
    then show ?thesis using 2(2) by (simp add: in_rank_order_def)
  qed
qed

lemma sort_key_of_nan_last:
  assumes "sort_key_of a \<le> sort_key_of b" and "Average_Rating a = NaN"
  shows "Average_Rating b = NaN"
  using assms
  by (cases "Average_Rating b") (auto simp: sort_key_of_def less_eq_prod_def less_prod_def)

lemma sorted_const_keys: "\<forall>x\<in>set xs. f x = k \<Longrightarrow> sorted (map f xs)"
  by (induction xs) auto

lemma sort_values_mono:
  assumes "i \<le> j" and "j < length rows"
  shows "sort_key_of (sort_values rows ! i) \<le> sort_key_of (sort_values rows ! j)"
proof -
  have "sorted (map sort_key_of (sort_values rows))"
    by (simp add: sort_values_def)
  moreover have "j < length (map sort_key_of (sort_values rows))"
    using assms by (simp add: sort_values_def)
  ultimately have "map sort_key_of (sort_values rows) ! i \<le> map sort_key_of (sort_values rows) ! j"
    using assms(1) sorted_nth_mono by blast
  then show ?thesis using assms by (simp add: sort_values_def)
qed

lemma sort_values_stable:
  "filter (\<lambda>r. Average_Rating r = a \<and> Count r = c) (sort_values rows) =
   filter (\<lambda>r. Average_Rating r = a \<and> Count r = c) rows"
proof -
  let ?k = "sort_key_of \<lparr>Course = [], Average_Rating = a, Count = c\<rparr>"
  have "(\<lambda>r. Average_Rating r = a \<and> Count r = c) = (\<lambda>r. sort_key_of r = ?k)"
    by (simp add: sort_key_of_eq_iff fun_eq_iff)
  then show ?thesis by (simp add: sort_values_def sort_key_stable)
qed

lemma set_sort_values: "set (sort_values rows) = set rows"
  by (simp add: sort_values_def)

lemma length_sort_values: "length (sort_values rows) = length rows"
  by (simp add: sort_values_def)

lemma mset_sort_values: "mset (sort_values rows) = mset rows"
  by (simp add: sort_values_def)

lemma length_ranking: "length (ranking names data) = length names"
  by (simp add: ranking_def length_sort_values length_stats_frame)

lemma ranking_adjacent:
  assumes "Suc i < length (ranking names data)"
    and "Average_Rating (ranking names data ! i) \<noteq> NaN"
    and "Average_Rating (ranking names data ! Suc i) \<noteq> NaN"
  shows "in_rank_order (ranking names data ! i) (ranking names data ! Suc i)"
proof -
  have "Suc i < length (stats_frame names data)"
    using assms(1) by (simp add: ranking_def length_sort_values)
  then have "sort_key_of (ranking names data ! i) \<le> sort_key_of (ranking names data ! Suc i)"
    unfolding ranking_def by (intro sort_values_mono) simp_all
  then show ?thesis using assms(2,3) by (rule sort_key_of_le)
qed

lemma ranking_nan_last:
  assumes "i \<le> j" and "j < length (ranking names data)"
    and "Average_Rating (ranking names data ! i) = NaN"
  shows "Average_Rating (ranking names data ! j) = NaN"
proof -
  have "j < length (stats_frame names data)"
    using assms(2) by (simp add: ranking_def length_sort_values)
  then have "sort_key_of (ranking names data ! i) \<le> sort_key_of (ranking names data ! j)"
    unfolding ranking_def using assms(1) by (intro sort_values_mono)
  then show ?thesis using assms(3) by (rule sort_key_of_nan_last)
qed

lemma ranking_all_nan:
  assumes n: "length names = 8" and e: "cleaned tn df = []"
  shows "ranking names (cleaned tn df) = stats_frame names (cleaned tn df)"
proof -
  have "sort_key_of r = ((3, 0), 0)" if "r \<in> set (stats_frame names (cleaned tn df))" for r
    using stats_frame_row [OF n that] e by (simp add: sort_key_of_def)
  then have "sorted (map sort_key_of (stats_frame names (cleaned tn df)))"
    by (intro sorted_const_keys) blast
  then show ?thesis
    unfolding ranking_def sort_values_def by (rule sort_key_id_if_sorted)
qed

lemma stats_frame_empty:
  "stats_frame names [] = map (\<lambda>n. \<lparr>Course = n, Average_Rating = NaN, Count = 0\<rparr>) names"
proof -
  let ?row = "\<lambda>n. \<lparr>Course = n, Average_Rating = NaN, Count = 0\<rparr>"
  have "map ?row names = map ?row (map (\<lambda>j. names ! j) [0..<length names])"
    by (simp only: map_nth)
  then show ?thesis
    by (simp add: stats_frame_def column_def mean_def count_def comp_def)
qed

subsection \<open>The run as a whole, and the concrete sheets\<close>

lemma main_Workbook_csv:
  assumes "target_cols (columns df) = Inr cols" and "course_names cols = Inr names"
  shows "csv (main tn (Workbook df)) = Some (ranking names (cleaned tn df))"
  using main_Workbook [OF assms] by simp

lemma cleaned_eq_filter:
  "cleaned tn df = map (map tn) (filter (list_all (\<lambda>c. tn c \<noteq> NaN)) (iloc df))"
proof -
  have "list_all notna \<circ> map tn = list_all (\<lambda>c. tn c \<noteq> NaN)"
    by (auto simp: fun_eq_iff list_all_iff notna_def)
  then show ?thesis
    by (simp add: cleaned_def dropna_def apply_to_numeric_def filter_map)
qed

lemma iloc_body:
  "iloc (df\<lparr>body := r0 # rows\<rparr>) = map (\<lambda>row. map (\<lambda>i. row ! i) target_cols_indices) rows"
  by (simp add: iloc_def)

lemma survey_target_cols:
  "target_cols survey_columns = Inr [Str ''Q35_1 - Taxation'', Str ''Q35_2 - Audit'', Str ''Ethics'',
      Str ''Q35_4 - Strategy'', Str ''Q35_5 - Finance'', Str ''Q35_6 - Law'',
      Str ''Q35_7 - Data'', Str ''Q35_8 - Tax - Research'']"
  by (simp add: target_cols_def target_cols_indices_eq survey_columns_def nth_append)

lemma survey_course_names:
  "course_names [Str ''Q35_1 - Taxation'', Str ''Q35_2 - Audit'', Str ''Ethics'',
      Str ''Q35_4 - Strategy'', Str ''Q35_5 - Finance'', Str ''Q35_6 - Law'',
      Str ''Q35_7 - Data'', Str ''Q35_8 - Tax - Research''] =
   Inr [''Taxation'', ''Audit'', ''Ethics'', ''Strategy'', ''Finance'', ''Law'', ''Data'', ''Research'']"
  by (simp add: course_name_def str_split_def startswith_def)

lemma round64_small:
  "round64 1 = Finite 1" "round64 2 = Finite 2" "round64 3 = Finite 3" "round64 4 = Finite 4"
  "round64 5 = Finite 5" "round64 6 = Finite 6" "round64 7 = Finite 7" "round64 8 = Finite 8"
  by (simp_all add: float_eval)

lemma to_numeric_texts:
  "text_to_float ''N/A'' = NaN" "text_to_float ''3'' = Finite 3"
  "text_to_float ''{ImportId:QID35}'' = NaN"
  "text_to_float ''inf'' = PosInf" "text_to_float ''-inf'' = NegInf"
  by (simp_all add: text_to_float_def unsigned_decimal_def digit_def float_eval)

lemma survey_cleaned:
  "cleaned (to_numeric text_to_float) survey =
     [[Finite 3, Finite 1, Finite 2, Finite 4, Finite 5, Finite 6, Finite 7, Finite 8],
      [Finite 2, Finite 1, Finite 3, Finite 4, Finite 5, Finite 6, Finite 8, Finite 7]]"
  by (simp add: cleaned_def survey_def iloc_def answers_def target_cols_indices_eq nth_append
      apply_to_numeric_def dropna_def notna_def to_numeric_texts round64_small)

lemma unanswered_cleaned: "cleaned (to_numeric text_to_float) unanswered = []"
  by (simp add: cleaned_def unanswered_def iloc_def answers_def target_cols_indices_eq nth_append
      apply_to_numeric_def dropna_def notna_def to_numeric_texts)

lemma survey_ranking:
  "ranking [''Taxation'', ''Audit'', ''Ethics'', ''Strategy'', ''Finance'', ''Law'', ''Data'', ''Research'']
     [[Finite 3, Finite 1, Finite 2, Finite 4, Finite 5, Finite 6, Finite 7, Finite 8],
      [Finite 2, Finite 1, Finite 3, Finite 4, Finite 5, Finite 6, Finite 8, Finite 7]] =
    [\<lparr>Course = ''Audit'', Average_Rating = Finite 1, Count = 2\<rparr>,
     \<lparr>Course = ''Taxation'', Average_Rating = Finite (5 / 2), Count = 2\<rparr>,
     \<lparr>Course = ''Ethics'', Average_Rating = Finite (5 / 2), Count = 2\<rparr>,
     \<lparr>Course = ''Strategy'', Average_Rating = Finite 4, Count = 2\<rparr>,
     \<lparr>Course = ''Finance'', Average_Rating = Finite 5, Count = 2\<rparr>,
     \<lparr>Course = ''Law'', Average_Rating = Finite 6, Count = 2\<rparr>,
     \<lparr>Course = ''Data'', Average_Rating = Finite (15 / 2), Count = 2\<rparr>,
     \<lparr>Course = ''Research'', Average_Rating = Finite (15 / 2), Count = 2\<rparr>]"
  by (simp add: ranking_def stats_frame_def upt_rec column_def mean_def count_def notna_def
      fsum_def float_eval sort_values_def sort_key_of_def)

lemma main_csv_Some:
  assumes "csv (main tn file) = Some table"
  shows "\<exists>df cols names. file = Workbook df \<and> target_cols (columns df) = Inr cols \<and>
           course_names cols = Inr names \<and> table = ranking names (cleaned tn df)"
  using assms
  by (auto simp: main_def raise_def Let_def split: input_file.splits sum.splits)

lemma names_length_8:
  assumes "target_cols (columns df) = Inr cols" and "course_names cols = Inr names"
  shows "length names = 8"
  using target_cols_Inr [OF assms(1)] course_names_Inr [OF assms(2)] by simp

lemma barh_plot_data:
  "barh (plot_data table) = rev (map (\<lambda>r. (Course r, Average_Rating r)) table)"
  by (simp add: barh_def plot_data_def zip_map_map zip_same_conv_map rev_map comp_def)

lemma selected_row_kept_or_dropped:
  "cleaned tn (df\<lparr>body := r0 # before @ r # after\<rparr>) =
     cleaned tn (df\<lparr>body := r0 # before\<rparr>) @
     (if list_all (\<lambda>c. tn c \<noteq> NaN) (map (\<lambda>i. r ! i) target_cols_indices)
      then [map tn (map (\<lambda>i. r ! i) target_cols_indices)] else []) @
     cleaned tn (df\<lparr>body := r0 # after\<rparr>)"
  by (simp add: cleaned_eq_filter iloc_body)

lemma unanswered_ranking:
  "ranking [''Taxation'', ''Audit'', ''Ethics'', ''Strategy'', ''Finance'', ''Law'', ''Data'', ''Research''] [] =
    [\<lparr>Course = ''Taxation'', Average_Rating = NaN, Count = 0\<rparr>,
     \<lparr>Course = ''Audit'', Average_Rating = NaN, Count = 0\<rparr>,
     \<lparr>Course = ''Ethics'', Average_Rating = NaN, Count = 0\<rparr>,
     \<lparr>Course = ''Strategy'', Average_Rating = NaN, Count = 0\<rparr>,
     \<lparr>Course = ''Finance'', Average_Rating = NaN, Count = 0\<rparr>,
     \<lparr>Course = ''Law'', Average_Rating = NaN, Count = 0\<rparr>,
     \<lparr>Course = ''Data'', Average_Rating = NaN, Count = 0\<rparr>,
     \<lparr>Course = ''Research'', Average_Rating = NaN, Count = 0\<rparr>]"
  by (simp add: ranking_def stats_frame_empty sort_values_def sort_key_of_def)

lemma survey_csv:
  "csv (main (to_numeric text_to_float) (Workbook survey)) =
   Some [\<lparr>Course = ''Audit'', Average_Rating = Finite 1, Count = 2\<rparr>,
     \<lparr>Course = ''Taxation'', Average_Rating = Finite (5 / 2), Count = 2\<rparr>,
     \<lparr>Course = ''Ethics'', Average_Rating = Finite (5 / 2), Count = 2\<rparr>,
     \<lparr>Course = ''Strategy'', Average_Rating = Finite 4, Count = 2\<rparr>,
     \<lparr>Course = ''Finance'', Average_Rating = Finite 5, Count = 2\<rparr>,
     \<lparr>Course = ''Law'', Average_Rating = Finite 6, Count = 2\<rparr>,
     \<lparr>Course = ''Data'', Average_Rating = Finite (15 / 2), Count = 2\<rparr>,
     \<lparr>Course = ''Research'', Average_Rating = Finite (15 / 2), Count = 2\<rparr>]"
proof -
  have "columns survey = survey_columns" by (simp add: survey_def)
  then show ?thesis
    using main_Workbook_csv [of survey _ _ "to_numeric text_to_float"]
      survey_target_cols survey_course_names
    by (simp add: survey_cleaned survey_ranking)
qed

lemma unanswered_csv:
  "csv (main (to_numeric text_to_float) (Workbook unanswered)) =
   Some [\<lparr>Course = ''Taxation'', Average_Rating = NaN, Count = 0\<rparr>,
     \<lparr>Course = ''Audit'', Average_Rating = NaN, Count = 0\<rparr>,
     \<lparr>Course = ''Ethics'', Average_Rating = NaN, Count = 0\<rparr>,
     \<lparr>Course = ''Strategy'', Average_Rating = NaN, Count = 0\<rparr>,
     \<lparr>Course = ''Finance'', Average_Rating = NaN, Count = 0\<rparr>,
     \<lparr>Course = ''Law'', Average_Rating = NaN, Count = 0\<rparr>,
     \<lparr>Course = ''Data'', Average_Rating = NaN, Count = 0\<rparr>,
     \<lparr>Course = ''Research'', Average_Rating = NaN, Count = 0\<rparr>]"
proof -
  have "columns unanswered = survey_columns" by (simp add: unanswered_def)
  then show ?thesis
    using main_Workbook_csv [of unanswered _ _ "to_numeric text_to_float"]
      survey_target_cols survey_course_names
    by (simp add: unanswered_cleaned unanswered_ranking)
qed

lemma status_Workbook:
  "status (main tn (Workbook df)) =
     (if length (columns df) < 19 then Raised IndexError
      else if NonStr \<in> set (map (\<lambda>i. columns df ! i) target_cols_indices) then Raised TypeError
      else Completed)"
proof (cases "length (columns df) < 19")
  case True
  then have "target_cols (columns df) = Inl IndexError"
    by (auto simp: target_cols_def target_cols_indices_eq)
  then show ?thesis using True by (simp add: main_def raise_def)
next
  case False
  then have tc: "target_cols (columns df) = Inr (map (\<lambda>i. columns df ! i) target_cols_indices)"
    by (simp add: target_cols_long)
  show ?thesis
  proof (cases "course_names (map (\<lambda>i. columns df ! i) target_cols_indices)")
    case (Inl e)
    then show ?thesis
      using False tc course_names_Inl [OF Inl] by (simp add: main_def raise_def)
  next
    case (Inr names)
    then show ?thesis
      using False main_Workbook [OF tc Inr, of tn] course_names_Inr [OF Inr] by simp
  qed
qed

lemma raised_no_outputs:
  assumes "status (main tn file) = Raised e"
  shows "main tn file = raise e [Loading_data]"
  using assms
  by (auto simp: main_def raise_def Let_def split: input_file.splits sum.splits)

lemma survey_columns_of: "columns survey = survey_columns" "columns unanswered = survey_columns"
  by (simp_all add: survey_def unanswered_def)

lemma survey_status: "status (main tn (Workbook survey)) = Completed"
  by (simp add: status_Workbook survey_columns_of)
    (simp add: survey_columns_def target_cols_indices_eq nth_append)

lemma survey_iloc_length: "length (iloc survey) = 3"
  by (simp add: iloc_def survey_def)





lemma unbounded_cleaned:
  "cleaned (to_numeric text_to_float) unbounded =
     [[PosInf, Finite 1, Finite 2, Finite 4, Finite 5, Finite 6, Finite 7, Finite 8],
      [NegInf, Finite 1, Finite 3, Finite 4, Finite 5, Finite 6, Finite 8, Finite 7]]"
  by (simp add: cleaned_def unbounded_def iloc_def answers_def target_cols_indices_eq nth_append
      apply_to_numeric_def dropna_def notna_def to_numeric_texts round64_small)

lemma unbounded_ranking:
  "ranking [''Taxation'', ''Audit'', ''Ethics'', ''Strategy'', ''Finance'', ''Law'', ''Data'', ''Research'']
     [[PosInf, Finite 1, Finite 2, Finite 4, Finite 5, Finite 6, Finite 7, Finite 8],
      [NegInf, Finite 1, Finite 3, Finite 4, Finite 5, Finite 6, Finite 8, Finite 7]] =
    [\<lparr>Course = ''Audit'', Average_Rating = Finite 1, Count = 2\<rparr>,
     \<lparr>Course = ''Ethics'', Average_Rating = Finite (5 / 2), Count = 2\<rparr>,
     \<lparr>Course = ''Strategy'', Average_Rating = Finite 4, Count = 2\<rparr>,
     \<lparr>Course = ''Finance'', Average_Rating = Finite 5, Count = 2\<rparr>,
     \<lparr>Course = ''Law'', Average_Rating = Finite 6, Count = 2\<rparr>,
     \<lparr>Course = ''Data'', Average_Rating = Finite (15 / 2), Count = 2\<rparr>,
     \<lparr>Course = ''Research'', Average_Rating = Finite (15 / 2), Count = 2\<rparr>,
     \<lparr>Course = ''Taxation'', Average_Rating = NaN, Count = 2\<rparr>]"
  by (simp add: ranking_def stats_frame_def upt_rec column_def mean_def count_def notna_def
      fsum_def float_eval sort_values_def sort_key_of_def)

lemma duplicated_target_cols:
  "target_cols (columns duplicated) =
     Inr [Str ''Q35_1 - Tax'', Str ''Q35_2 - Tax'', Str ''Ethics'',
          Str ''Q35_4 - Strategy'', Str ''Q35_5 - Finance'', Str ''Q35_6 - Law'',
          Str ''Q35_7 - Data'', Str ''Q35_8 - Research'']"
  by (simp add: duplicated_def target_cols_def target_cols_indices_eq nth_append)

lemma duplicated_course_names:
  "course_names [Str ''Q35_1 - Tax'', Str ''Q35_2 - Tax'', Str ''Ethics'',
          Str ''Q35_4 - Strategy'', Str ''Q35_5 - Finance'', Str ''Q35_6 - Law'',
          Str ''Q35_7 - Data'', Str ''Q35_8 - Research''] =
   Inr [''Tax'', ''Tax'', ''Ethics'', ''Strategy'', ''Finance'', ''Law'', ''Data'', ''Research'']"
  by (simp add: course_name_def str_split_def startswith_def)

lemma duplicated_cleaned:
  "cleaned tn duplicated = cleaned tn survey"
  by (simp add: duplicated_def cleaned_def iloc_def)

lemma duplicated_ranking:
  "ranking [''Tax'', ''Tax'', ''Ethics'', ''Strategy'', ''Finance'', ''Law'', ''Data'', ''Research'']
     [[Finite 3, Finite 1, Finite 2, Finite 4, Finite 5, Finite 6, Finite 7, Finite 8],
      [Finite 2, Finite 1, Finite 3, Finite 4, Finite 5, Finite 6, Finite 8, Finite 7]] =
    [\<lparr>Course = ''Tax'', Average_Rating = Finite 1, Count = 2\<rparr>,
     \<lparr>Course = ''Tax'', Average_Rating = Finite (5 / 2), Count = 2\<rparr>,
     \<lparr>Course = ''Ethics'', Average_Rating = Finite (5 / 2), Count = 2\<rparr>,
     \<lparr>Course = ''Strategy'', Average_Rating = Finite 4, Count = 2\<rparr>,
     \<lparr>Course = ''Finance'', Average_Rating = Finite 5, Count = 2\<rparr>,
     \<lparr>Course = ''Law'', Average_Rating = Finite 6, Count = 2\<rparr>,
     \<lparr>Course = ''Data'', Average_Rating = Finite (15 / 2), Count = 2\<rparr>,
     \<lparr>Course = ''Research'', Average_Rating = Finite (15 / 2), Count = 2\<rparr>]"
  by (simp add: ranking_def stats_frame_def upt_rec column_def mean_def count_def notna_def
      fsum_def float_eval sort_values_def sort_key_of_def)

lemma duplicated_csv:
  "csv (main (to_numeric text_to_float) (Workbook duplicated)) =
   Some [\<lparr>Course = ''Tax'', Average_Rating = Finite 1, Count = 2\<rparr>,
     \<lparr>Course = ''Tax'', Average_Rating = Finite (5 / 2), Count = 2\<rparr>,
     \<lparr>Course = ''Ethics'', Average_Rating = Finite (5 / 2), Count = 2\<rparr>,
     \<lparr>Course = ''Strategy'', Average_Rating = Finite 4, Count = 2\<rparr>,
     \<lparr>Course = ''Finance'', Average_Rating = Finite 5, Count = 2\<rparr>,
     \<lparr>Course = ''Law'', Average_Rating = Finite 6, Count = 2\<rparr>,
     \<lparr>Course = ''Data'', Average_Rating = Finite (15 / 2), Count = 2\<rparr>,
     \<lparr>Course = ''Research'', Average_Rating = Finite (15 / 2), Count = 2\<rparr>]"
  using main_Workbook_csv [OF duplicated_target_cols duplicated_course_names,
      of "to_numeric text_to_float"]
  by (simp add: duplicated_cleaned survey_cleaned duplicated_ranking)

section \<open>The claims\<close>

subsection \<open>C1\<close>

text \<open>
  C1. The table written after the sort is \<open>sort_values\<close> of the frame of means and
  counts. Every two adjacent rows \<open>(a, b)\<close> of it whose averages are both numbers (not
  NaN) satisfy: the average of \<open>a\<close> is less than that of \<open>b\<close>, or the averages are
  equal and the count of \<open>a\<close> is at least that of \<open>b\<close>. The rows whose average is NaN
  come after all the others. The rows with the same average and the same count keep
  the order they had before the sort. When no row survives cleaning, every average is
  NaN and every count is 0, and the table keeps the order of the columns.
\<close>

theorem ranking_sorted_apart_from_nan:
  assumes "target_cols (columns df) = Inr cols" and "course_names cols = Inr names"
  shows "csv (main tn (Workbook df)) = Some (ranking names (cleaned tn df)) \<and>
         ranking names (cleaned tn df) = sort_values (stats_frame names (cleaned tn df)) \<and>
         (\<forall>i. Suc i < length (ranking names (cleaned tn df)) \<and>
              Average_Rating (ranking names (cleaned tn df) ! i) \<noteq> NaN \<and>
              Average_Rating (ranking names (cleaned tn df) ! Suc i) \<noteq> NaN \<longrightarrow>
              in_rank_order (ranking names (cleaned tn df) ! i)
                            (ranking names (cleaned tn df) ! Suc i)) \<and>
         (\<forall>i j. i \<le> j \<and> j < length (ranking names (cleaned tn df)) \<and>
                Average_Rating (ranking names (cleaned tn df) ! i) = NaN \<longrightarrow>
                Average_Rating (ranking names (cleaned tn df) ! j) = NaN) \<and>
         (\<forall>a c. filter (\<lambda>r. Average_Rating r = a \<and> Count r = c) (ranking names (cleaned tn df)) =
                 filter (\<lambda>r. Average_Rating r = a \<and> Count r = c)
                   (stats_frame names (cleaned tn df))) \<and>
         (cleaned tn df = [] \<longrightarrow>
            ranking names (cleaned tn df) =
              map (\<lambda>n. \<lparr>Course = n, Average_Rating = NaN, Count = 0\<rparr>) names)"
proof -
  let ?t = "ranking names (cleaned tn df)"
  have n: "length names = 8" using names_length_8 [OF assms] .
  have a: "csv (main tn (Workbook df)) = Some ?t"
    using main_Workbook_csv [OF assms] .
  have a': "?t = sort_values (stats_frame names (cleaned tn df))"
    by (simp add: ranking_def)
  have b: "in_rank_order (?t ! i) (?t ! Suc i)"
    if "Suc i < length ?t \<and> Average_Rating (?t ! i) \<noteq> NaN \<and>
        Average_Rating (?t ! Suc i) \<noteq> NaN" for i
    using that ranking_adjacent [of i names "cleaned tn df"] by blast
  have l: "Average_Rating (?t ! j) = NaN"
    if "i \<le> j \<and> j < length ?t \<and> Average_Rating (?t ! i) = NaN" for i j
    using that ranking_nan_last [of i j names "cleaned tn df"] by blast
  have c: "filter (\<lambda>r. Average_Rating r = a \<and> Count r = c) ?t =
           filter (\<lambda>r. Average_Rating r = a \<and> Count r = c) (stats_frame names (cleaned tn df))"
    for a c
    unfolding ranking_def by (rule sort_values_stable)
  have d: "?t = map (\<lambda>n. \<lparr>Course = n, Average_Rating = NaN, Count = 0\<rparr>) names"
    if "cleaned tn df = []"
    using ranking_all_nan [OF n that] that by (simp add: stats_frame_empty)
  show ?thesis
    using a a' b l c d by (intro conjI allI impI) blast+
qed

theorem ranking_sorted_apart_from_nan_witness:
  "target_cols (columns survey) =
     Inr [Str ''Q35_1 - Taxation'', Str ''Q35_2 - Audit'', Str ''Ethics'',
          Str ''Q35_4 - Strategy'', Str ''Q35_5 - Finance'', Str ''Q35_6 - Law'',
          Str ''Q35_7 - Data'', Str ''Q35_8 - Tax - Research''] \<and>
   Average_Rating
     (ranking [''Taxation'', ''Audit'', ''Ethics'', ''Strategy'', ''Finance'', ''Law'',
               ''Data'', ''Research''] (cleaned (to_numeric text_to_float) survey) ! 0) = Finite 1 \<and>
   Average_Rating
     (ranking [''Taxation'', ''Audit'', ''Ethics'', ''Strategy'', ''Finance'', ''Law'',
               ''Data'', ''Research''] (cleaned (to_numeric text_to_float) survey) ! Suc 0) =
     Finite (5 / 2) \<and>
   in_rank_order
     (ranking [''Taxation'', ''Audit'', ''Ethics'', ''Strategy'', ''Finance'', ''Law'',
               ''Data'', ''Research''] (cleaned (to_numeric text_to_float) survey) ! 0)
     (ranking [''Taxation'', ''Audit'', ''Ethics'', ''Strategy'', ''Finance'', ''Law'',
               ''Data'', ''Research''] (cleaned (to_numeric text_to_float) survey) ! Suc 0) \<and>
   cleaned (to_numeric text_to_float) unbounded \<noteq> [] \<and>
   Average_Rating
     (ranking [''Taxation'', ''Audit'', ''Ethics'', ''Strategy'', ''Finance'', ''Law'',
               ''Data'', ''Research''] (cleaned (to_numeric text_to_float) unbounded) ! 7) = NaN \<and>
   \<not> in_rank_order
     (ranking [''Taxation'', ''Audit'', ''Ethics'', ''Strategy'', ''Finance'', ''Law'',
               ''Data'', ''Research''] (cleaned (to_numeric text_to_float) unbounded) ! 6)
     (ranking [''Taxation'', ''Audit'', ''Ethics'', ''Strategy'', ''Finance'', ''Law'',
               ''Data'', ''Research''] (cleaned (to_numeric text_to_float) unbounded) ! 7)"
proof -
  let ?names = "[''Taxation'', ''Audit'', ''Ethics'', ''Strategy'', ''Finance'', ''Law'',
                 ''Data'', ''Research'']"
  let ?t = "ranking ?names (cleaned (to_numeric text_to_float) survey)"
  let ?u = "ranking ?names (cleaned (to_numeric text_to_float) unbounded)"
  have tc: "target_cols (columns survey) =
     Inr [Str ''Q35_1 - Taxation'', Str ''Q35_2 - Audit'', Str ''Ethics'',
          Str ''Q35_4 - Strategy'', Str ''Q35_5 - Finance'', Str ''Q35_6 - Law'',
          Str ''Q35_7 - Data'', Str ''Q35_8 - Tax - Research'']"
    by (simp add: survey_columns_of survey_target_cols)
  have h0: "Average_Rating (?t ! 0) = Finite 1"
    by (simp add: survey_cleaned survey_ranking)
  have h1: "Average_Rating (?t ! Suc 0) = Finite (5 / 2)"
    by (simp add: survey_cleaned survey_ranking)
  have l: "Suc 0 < length ?t"
    by (simp add: length_ranking)
  have ne0: "Average_Rating (?t ! 0) \<noteq> NaN" using h0 by simp
  have ne1: "Average_Rating (?t ! Suc 0) \<noteq> NaN" using h1 by simp
  have "\<forall>i. Suc i < length ?t \<and> Average_Rating (?t ! i) \<noteq> NaN \<and>
          Average_Rating (?t ! Suc i) \<noteq> NaN \<longrightarrow> in_rank_order (?t ! i) (?t ! Suc i)"
    using ranking_sorted_apart_from_nan [OF tc survey_course_names, of "to_numeric text_to_float"]
    by blast
  then have o: "in_rank_order (?t ! 0) (?t ! Suc 0)"
    using l ne0 ne1 by blast
  have u0: "cleaned (to_numeric text_to_float) unbounded \<noteq> []"
    by (simp add: unbounded_cleaned)
  have u7: "Average_Rating (?u ! 7) = NaN"
    by (simp add: unbounded_cleaned unbounded_ranking)
  have u6: "\<not> in_rank_order (?u ! 6) (?u ! 7)"
    by (simp add: unbounded_cleaned unbounded_ranking in_rank_order_def)
  from tc h0 h1 o u0 u7 u6 show ?thesis by blast
qed

text \<open>
  The property of adjacent rows does not hold for every input: on a sheet where no
  respondent gave a number, the averages are NaN, and NaN is neither less than nor
  equal to NaN.
\<close>

theorem ranking_not_sorted_counterexample:
  "csv (main (to_numeric text_to_float) (Workbook unanswered)) =
     Some [\<lparr>Course = ''Taxation'', Average_Rating = NaN, Count = 0\<rparr>,
           \<lparr>Course = ''Audit'', Average_Rating = NaN, Count = 0\<rparr>,
           \<lparr>Course = ''Ethics'', Average_Rating = NaN, Count = 0\<rparr>,
           \<lparr>Course = ''Strategy'', Average_Rating = NaN, Count = 0\<rparr>,
           \<lparr>Course = ''Finance'', Average_Rating = NaN, Count = 0\<rparr>,
           \<lparr>Course = ''Law'', Average_Rating = NaN, Count = 0\<rparr>,
           \<lparr>Course = ''Data'', Average_Rating = NaN, Count = 0\<rparr>,
           \<lparr>Course = ''Research'', Average_Rating = NaN, Count = 0\<rparr>] \<and>
   \<not> in_rank_order
       (the (csv (main (to_numeric text_to_float) (Workbook unanswered))) ! 0)
       (the (csv (main (to_numeric text_to_float) (Workbook unanswered))) ! 1)"
  by (simp add: unanswered_csv in_rank_order_def)

subsection \<open>C2\<close>

text \<open>
  C2. Cleaning is row-wise and all-or-nothing: the cleaned data are, in order, the rows
  whose eight selected cells all coerce to a number, each with all its eight values.
  A row with a cell that does not coerce leaves the cleaned data as they are without
  it; a row whose cells all coerce appears whole, at its place. A row
  \<^verbatim>\<open>[1,2,3,4,5,6,7,"N/A"]\<close> is dropped as soon as \<^verbatim>\<open>"N/A"\<close> does not coerce.
\<close>

theorem cleaning_row_wise:
  "cleaned tn df = map (map tn) (filter (list_all (\<lambda>c. tn c \<noteq> NaN)) (iloc df)) \<and>
   (\<forall>row\<in>set (cleaned tn df). length row = 8 \<and> list_all notna row) \<and>
   (\<not> list_all (\<lambda>c. tn c \<noteq> NaN) (map (\<lambda>i. r ! i) target_cols_indices) \<longrightarrow>
      cleaned tn (df\<lparr>body := r0 # before @ r # after\<rparr>) =
      cleaned tn (df\<lparr>body := r0 # before @ after\<rparr>)) \<and>
   (list_all (\<lambda>c. tn c \<noteq> NaN) (map (\<lambda>i. r ! i) target_cols_indices) \<longrightarrow>
      cleaned tn (df\<lparr>body := r0 # before @ r # after\<rparr>) =
      cleaned tn (df\<lparr>body := r0 # before\<rparr>) @
      [map tn (map (\<lambda>i. r ! i) target_cols_indices)] @
      cleaned tn (df\<lparr>body := r0 # after\<rparr>)) \<and>
   (p ''N/A'' = NaN \<longrightarrow>
      cleaned (to_numeric p)
        \<lparr>columns = labels,
         body = [meta, answers [Number 1, Number 2, Number 3, Number 4,
                                Number 5, Number 6, Number 7, Text ''N/A'']]\<rparr> = [])"
proof -
  have a: "cleaned tn df = map (map tn) (filter (list_all (\<lambda>c. tn c \<noteq> NaN)) (iloc df))"
    by (rule cleaned_eq_filter)
  have b: "\<forall>row\<in>set (cleaned tn df). length row = 8 \<and> list_all notna row"
    using cleaned_row by blast
  have c: "cleaned tn (df\<lparr>body := r0 # before @ r # after\<rparr>) =
      cleaned tn (df\<lparr>body := r0 # before @ after\<rparr>)"
    if "\<not> list_all (\<lambda>c. tn c \<noteq> NaN) (map (\<lambda>i. r ! i) target_cols_indices)"
    using that by (simp add: cleaned_eq_filter iloc_body)
  have d: "cleaned tn (df\<lparr>body := r0 # before @ r # after\<rparr>) =
      cleaned tn (df\<lparr>body := r0 # before\<rparr>) @
      [map tn (map (\<lambda>i. r ! i) target_cols_indices)] @
      cleaned tn (df\<lparr>body := r0 # after\<rparr>)"
    if "list_all (\<lambda>c. tn c \<noteq> NaN) (map (\<lambda>i. r ! i) target_cols_indices)"
    using that selected_row_kept_or_dropped [where tn = tn and df = df and ?r0.0 = r0 and before = before and r = r and after = after] by simp
  have e: "cleaned (to_numeric p)
        \<lparr>columns = labels,
         body = [meta, answers [Number 1, Number 2, Number 3, Number 4,
                                Number 5, Number 6, Number 7, Text ''N/A'']]\<rparr> = []"
    if "p ''N/A'' = NaN"
    using that
    by (simp add: cleaned_def iloc_def answers_def target_cols_indices_eq nth_append
        apply_to_numeric_def dropna_def notna_def)
  from a b c d e show ?thesis by blast
qed

theorem cleaning_row_wise_witness:
  "text_to_float ''N/A'' = NaN \<and>
   cleaned (to_numeric text_to_float)
     \<lparr>columns = survey_columns,
      body = [import_ids, answers [Number 1, Number 2, Number 3, Number 4,
                                   Number 5, Number 6, Number 7, Text ''N/A'']]\<rparr> = [] \<and>
   \<not> list_all (\<lambda>c. to_numeric text_to_float c \<noteq> NaN)
       (map (\<lambda>i. answers [Number 1, Number 2, Number 3, Number 4,
                            Number 5, Number 6, Number 7, Text ''N/A''] ! i) target_cols_indices) \<and>
   cleaned (to_numeric text_to_float) survey =
     cleaned (to_numeric text_to_float)
       (survey\<lparr>body :=
          [import_ids,
           answers [Number 3, Number 1, Number 2, Number 4,
                    Number 5, Number 6, Number 7, Number 8],
           answers [Number 2, Number 1, Text ''3'', Number 4,
                    Number 5, Number 6, Number 8, Number 7]]\<rparr>) \<and>
   list_all (\<lambda>c. to_numeric text_to_float c \<noteq> NaN)
       (map (\<lambda>i. answers [Number 2, Number 1, Text ''3'', Number 4,
                            Number 5, Number 6, Number 8, Number 7] ! i) target_cols_indices) \<and>
   cleaned (to_numeric text_to_float) survey =
     [[Finite 3, Finite 1, Finite 2, Finite 4, Finite 5, Finite 6, Finite 7, Finite 8],
      [Finite 2, Finite 1, Finite 3, Finite 4, Finite 5, Finite 6, Finite 8, Finite 7]]"
proof -
  let ?r1 = "answers [Number 3, Number 1, Number 2, Number 4,
                      Number 5, Number 6, Number 7, Number 8]"
  let ?r2 = "answers [Number 1, Number 2, Number 3, Number 4,
                      Number 5, Number 6, Number 7, Text ''N/A'']"
  let ?r3 = "answers [Number 2, Number 1, Text ''3'', Number 4,
                      Number 5, Number 6, Number 8, Number 7]"
  have s: "survey = survey\<lparr>body := import_ids # [?r1] @ ?r2 # [?r3]\<rparr>"
    by (simp add: survey_def)
  have h1: "text_to_float ''N/A'' = NaN" by (simp add: to_numeric_texts)
  have h2: "\<not> list_all (\<lambda>c. to_numeric text_to_float c \<noteq> NaN)
              (map (\<lambda>i. ?r2 ! i) target_cols_indices)"
    by (simp add: answers_def target_cols_indices_eq nth_append to_numeric_texts round64_small)
  have h3: "list_all (\<lambda>c. to_numeric text_to_float c \<noteq> NaN)
              (map (\<lambda>i. ?r3 ! i) target_cols_indices)"
    by (simp add: answers_def target_cols_indices_eq nth_append to_numeric_texts round64_small)
  note t = cleaning_row_wise [where tn = "to_numeric text_to_float" and df = survey
      and p = text_to_float and labels = survey_columns and meta = import_ids
      and ?r0.0 = import_ids and before = "[?r1]" and r = ?r2 and after = "[?r3]"]
  have c1: "cleaned (to_numeric text_to_float)
     \<lparr>columns = survey_columns, body = [import_ids, ?r2]\<rparr> = []"
    using t h1 by blast
  have c2: "cleaned (to_numeric text_to_float) (survey\<lparr>body := import_ids # [?r1] @ ?r2 # [?r3]\<rparr>) =
            cleaned (to_numeric text_to_float) (survey\<lparr>body := import_ids # [?r1] @ [?r3]\<rparr>)"
    using t h2 by blast
  have c3: "cleaned (to_numeric text_to_float) survey =
            cleaned (to_numeric text_to_float) (survey\<lparr>body := [import_ids, ?r1, ?r3]\<rparr>)"
    using c2 s by simp
  show ?thesis
    using h1 h2 h3 c1 c3 survey_cleaned by simp
qed

subsection \<open>C3\<close>

text \<open>
  C3. The course name of a header is the final segment of the header split on
  \<^verbatim>\<open>" - "\<close>, the separators being found from the left without overlap. The segments
  joined by the separator give back the header, so a header that contains the
  separator is the segments before the last one, joined, then the separator, then the
  name; the name holds no separator. A header without separator is its own name.
  When the header holds no \<^verbatim>\<open>" - - "\<close>, so that no two occurrences of the separator
  overlap, the name is the substring after the last occurrence of the separator.
  \<^verbatim>\<open>"Q35_1 - Taxation"\<close> gives \<^verbatim>\<open>"Taxation"\<close> and \<^verbatim>\<open>"Ethics"\<close> gives \<^verbatim>\<open>"Ethics"\<close>.
\<close>

theorem course_name_final_segment:
  "course_name col = last (str_split '' - '' col) \<and>
   str_join '' - '' (str_split '' - '' col) = col \<and>
   (str_contains '' - '' col \<longrightarrow>
      col = str_join '' - '' (butlast (str_split '' - '' col)) @ '' - '' @ course_name col) \<and>
   \<not> str_contains '' - '' (course_name col) \<and>
   (\<not> str_contains '' - '' col \<longrightarrow> course_name col = col) \<and>
   (\<not> str_contains '' - - '' col \<longrightarrow> course_name col = after_last_separator col) \<and>
   course_name ''Q35_1 - Taxation'' = ''Taxation'' \<and>
   course_name ''Ethics'' = ''Ethics''"
proof -
  have a: "course_name col = last (str_split '' - '' col)"
    by (rule course_name_eq_last)
  have b: "str_join '' - '' (str_split '' - '' col) = col"
    by (simp add: str_split_def join_split_from)
  have c: "col = str_join '' - '' (butlast (str_split '' - '' col)) @ '' - '' @ course_name col"
    if "str_contains '' - '' col"
    using that by (rule course_name_after_last_separator)
  have d: "\<not> str_contains '' - '' (course_name col)"
    using last_split_from_no_sep [of "'' - ''" "[]" col] by (simp add: a str_split_def)
  have e: "course_name col = col" if "\<not> str_contains '' - '' col"
    using that by (simp add: course_name_def)
  have s: "course_name col = after_last_separator col" if "\<not> str_contains '' - - '' col"
    using that by (rule course_name_after_last_occurrence)
  have f: "course_name ''Q35_1 - Taxation'' = ''Taxation''"
    by (simp add: course_name_def str_split_def startswith_def)
  have g: "course_name ''Ethics'' = ''Ethics''"
    by (simp add: course_name_def str_split_def startswith_def)
  from a b c d e s f g show ?thesis by blast
qed

theorem course_name_final_segment_witness:
  "str_contains '' - '' ''Q35_8 - Tax - Research'' \<and>
   \<not> str_contains '' - - '' ''Q35_8 - Tax - Research'' \<and>
   ''Q35_8 - Tax - Research'' = ''Q35_8 - Tax'' @ '' - '' @ course_name ''Q35_8 - Tax - Research'' \<and>
   course_name ''Q35_8 - Tax - Research'' = ''Research'' \<and>
   after_last_separator ''Q35_8 - Tax - Research'' = ''Research'' \<and>
   \<not> str_contains '' - '' ''Ethics'' \<and>
   course_name ''Ethics'' = ''Ethics''"
proof -
  have h1: "str_contains '' - '' ''Q35_8 - Tax - Research''"
    by (simp add: startswith_def)
  have h2: "\<not> str_contains '' - '' ''Ethics''"
    by (simp add: startswith_def)
  have h3: "\<not> str_contains '' - - '' ''Q35_8 - Tax - Research''"
    by (simp add: startswith_def)
  have s: "str_split '' - '' ''Q35_8 - Tax - Research'' = [''Q35_8'', ''Tax'', ''Research'']"
    by (simp add: str_split_def startswith_def)
  note t = course_name_final_segment [of "''Q35_8 - Tax - Research''"]
  have "''Q35_8 - Tax - Research'' =
      str_join '' - '' (butlast (str_split '' - '' ''Q35_8 - Tax - Research'')) @ '' - '' @
      course_name ''Q35_8 - Tax - Research''"
    using t h1 by blast
  then have c1: "''Q35_8 - Tax - Research'' =
      ''Q35_8 - Tax'' @ '' - '' @ course_name ''Q35_8 - Tax - Research''"
    by (simp add: s)
  have c2: "course_name ''Q35_8 - Tax - Research'' = ''Research''"
    using c1 by simp
  have "course_name ''Q35_8 - Tax - Research'' = after_last_separator ''Q35_8 - Tax - Research''"
    using t h3 by blast
  then have c4: "after_last_separator ''Q35_8 - Tax - Research'' = ''Research''"
    using c2 by simp
  have c3: "course_name ''Ethics'' = ''Ethics''"
    using course_name_final_segment [of "''Ethics''"] h2 by blast
  from h1 h2 h3 c1 c2 c3 c4 show ?thesis by blast
qed

text \<open>
  The name is not always the substring after the last occurrence of the separator:
  in \<^verbatim>\<open>"A - - B"\<close> two occurrences overlap, the split finds the first only, and the
  name is \<^verbatim>\<open>"- B"\<close>, where the text after the last occurrence is \<^verbatim>\<open>"B"\<close>.
\<close>

theorem course_name_overlap_counterexample:
  "course_name ''A - - B'' = ''- B'' \<and>
   after_last_separator ''A - - B'' = ''B'' \<and>
   course_name ''A - - B'' \<noteq> after_last_separator ''A - - B''"
  by (simp add: course_name_def str_split_def startswith_def after_last_separator_def)

subsection \<open>C4\<close>

text \<open>
  C4. Every run that completes writes a table of exactly 8 rows, one for each of the
  8 selected columns, as many as there are indices in \<open>target_cols_indices\<close>. The
  course names of its rows are the 8 derived course names, each as often as it was
  derived: the table holds as many distinct names as were derived, and 8 distinct
  names exactly when the derived names are distinct.
\<close>

theorem ranking_table_has_eight_rows:
  assumes "status (main tn file) = Completed"
  shows "\<exists>df cols names table.
           file = Workbook df \<and> target_cols (columns df) = Inr cols \<and>
           course_names cols = Inr names \<and> csv (main tn file) = Some table \<and>
           length table = 8 \<and> length cols = 8 \<and> length target_cols_indices = 8 \<and>
           mset (map Course table) = mset names \<and>
           card (set (map Course table)) = card (set names) \<and>
           (distinct (map Course table) \<longleftrightarrow> distinct names) \<and>
           (card (set (map Course table)) = 8 \<longleftrightarrow> distinct names)"
proof -
  obtain df cols names where f: "file = Workbook df"
    and tc: "target_cols (columns df) = Inr cols" and cn: "course_names cols = Inr names"
    using main_Completed [OF assms] by blast
  let ?t = "ranking names (cleaned tn df)"
  have n: "length names = 8" using names_length_8 [OF tc cn] .
  have c: "csv (main tn file) = Some ?t"
    using main_Workbook_csv [OF tc cn] f by simp
  have l: "length ?t = 8" by (simp add: length_ranking n)
  have m: "mset (map Course ?t) = mset names"
  proof -
    have "mset (map Course ?t) = mset (map Course (stats_frame names (cleaned tn df)))"
      by (simp add: ranking_def mset_sort_values)
    then show ?thesis by (simp only: map_Course_stats_frame)
  qed
  have s: "set (map Course ?t) = set names"
    using m by (rule mset_eq_setD)
  have k: "card (set (map Course ?t)) = card (set names)"
    by (simp only: s)
  have d: "distinct (map Course ?t) \<longleftrightarrow> distinct names"
    using m by (rule mset_eq_imp_distinct_iff)
  have "card (set names) = length names \<longleftrightarrow> distinct names"
    using card_distinct [of names] distinct_card [of names] by blast
  then have e: "card (set (map Course ?t)) = 8 \<longleftrightarrow> distinct names"
    by (simp only: k n)
  show ?thesis
    using f tc cn c l m k d e target_cols_Inr [OF tc] length_target_cols_indices by blast
qed

theorem ranking_table_has_eight_rows_witness:
  "status (main (to_numeric text_to_float) (Workbook survey)) = Completed \<and>
   (\<exists>table. csv (main (to_numeric text_to_float) (Workbook survey)) = Some table \<and>
            length table = 8 \<and> card (set (map Course table)) = 8)"
proof -
  obtain df cols names table where f: "Workbook survey = Workbook df"
    and tc: "target_cols (columns df) = Inr cols" and cn: "course_names cols = Inr names"
    and c: "csv (main (to_numeric text_to_float) (Workbook survey)) = Some table"
    and l: "length table = 8"
    and e: "card (set (map Course table)) = 8 \<longleftrightarrow> distinct names"
    using ranking_table_has_eight_rows [OF survey_status [of "to_numeric text_to_float"]]
    by blast
  have "df = survey" using f by simp
  then have cols: "cols = [Str ''Q35_1 - Taxation'', Str ''Q35_2 - Audit'', Str ''Ethics'',
      Str ''Q35_4 - Strategy'', Str ''Q35_5 - Finance'', Str ''Q35_6 - Law'',
      Str ''Q35_7 - Data'', Str ''Q35_8 - Tax - Research'']"
    using tc by (simp add: survey_columns_of survey_target_cols)
  have "course_names cols = Inr [''Taxation'', ''Audit'', ''Ethics'', ''Strategy'', ''Finance'',
      ''Law'', ''Data'', ''Research'']"
    unfolding cols by (rule survey_course_names)
  then have "names = [''Taxation'', ''Audit'', ''Ethics'', ''Strategy'', ''Finance'', ''Law'',
      ''Data'', ''Research'']"
    using cn by simp
  then have "distinct names" by simp
  then have "card (set (map Course table)) = 8" using e by simp
  then show ?thesis
    using c l survey_status [of "to_numeric text_to_float"] by blast
qed

text \<open>
  The rows need not carry 8 distinct names: two headers that end in the same course
  name give a completed run whose 8 rows carry 7 names.
\<close>

theorem duplicate_names_counterexample:
  "status (main (to_numeric text_to_float) (Workbook duplicated)) = Completed \<and>
   length (the (csv (main (to_numeric text_to_float) (Workbook duplicated)))) = 8 \<and>
   map Course (the (csv (main (to_numeric text_to_float) (Workbook duplicated)))) =
     [''Tax'', ''Tax'', ''Ethics'', ''Strategy'', ''Finance'', ''Law'', ''Data'', ''Research''] \<and>
   card (set (map Course (the (csv (main (to_numeric text_to_float) (Workbook duplicated)))))) = 7"
proof -
  have "status (main (to_numeric text_to_float) (Workbook duplicated)) = Completed"
    using main_Workbook [OF duplicated_target_cols duplicated_course_names,
        of "to_numeric text_to_float"]
    by simp
  then show ?thesis by (simp add: duplicated_csv)
qed

subsection \<open>C5\<close>

text \<open>
  C5. The first body row is skipped before any numeric processing: the whole run is the
  same whatever that row holds, the data selected are the selected cells of the other
  rows, and the rows left after cleaning are at most as many as those other rows.
\<close>

theorem metadata_row_skipped:
  "main tn (Workbook (df\<lparr>body := r0 # rows\<rparr>)) = main tn (Workbook (df\<lparr>body := r0' # rows\<rparr>)) \<and>
   iloc (df\<lparr>body := r0 # rows\<rparr>) = map (\<lambda>row. map (\<lambda>i. row ! i) target_cols_indices) rows \<and>
   cleaned tn (df\<lparr>body := r0 # rows\<rparr>) =
     dropna (apply_to_numeric tn (map (\<lambda>row. map (\<lambda>i. row ! i) target_cols_indices) rows)) \<and>
   length (cleaned tn (df\<lparr>body := r0 # rows\<rparr>)) \<le> length rows"
proof -
  let ?sel = "map (\<lambda>row. map (\<lambda>i. row ! i) target_cols_indices) rows"
  have i: "iloc (df\<lparr>body := r\<rparr>) = ?sel" if "r = r0 # rows \<or> r = r0' # rows" for r
    using that by (auto simp: iloc_body)
  have c: "cleaned tn (df\<lparr>body := r\<rparr>) = dropna (apply_to_numeric tn ?sel)"
    if "r = r0 # rows \<or> r = r0' # rows" for r
    using i [OF that] by (simp add: cleaned_def)
  have m: "main tn (Workbook (df\<lparr>body := r0 # rows\<rparr>)) =
           main tn (Workbook (df\<lparr>body := r0' # rows\<rparr>))"
    by (simp add: main_def Let_def i c split: sum.splits)
  have l: "length (dropna (apply_to_numeric tn ?sel)) \<le> length rows"
    using length_filter_le [of "list_all notna" "apply_to_numeric tn ?sel"]
    by (simp add: dropna_def apply_to_numeric_def)
  from m l show ?thesis by (simp add: i c)
qed

theorem metadata_row_skipped_witness:
  "main (to_numeric text_to_float) (Workbook survey) =
   main (to_numeric text_to_float)
     (Workbook (survey\<lparr>body :=
        [answers [Number 8, Number 7, Number 6, Number 5,
                  Number 4, Number 3, Number 2, Number 1],
         answers [Number 3, Number 1, Number 2, Number 4,
                  Number 5, Number 6, Number 7, Number 8],
         answers [Number 1, Number 2, Number 3, Number 4,
                  Number 5, Number 6, Number 7, Text ''N/A''],
         answers [Number 2, Number 1, Text ''3'', Number 4,
                  Number 5, Number 6, Number 8, Number 7]]\<rparr>))"
proof -
  let ?rows = "[answers [Number 3, Number 1, Number 2, Number 4,
                         Number 5, Number 6, Number 7, Number 8],
                answers [Number 1, Number 2, Number 3, Number 4,
                         Number 5, Number 6, Number 7, Text ''N/A''],
                answers [Number 2, Number 1, Text ''3'', Number 4,
                         Number 5, Number 6, Number 8, Number 7]]"
  have s: "survey = survey\<lparr>body := import_ids # ?rows\<rparr>"
    by (simp add: survey_def)
  have "main (to_numeric text_to_float) (Workbook (survey\<lparr>body := import_ids # ?rows\<rparr>)) =
        main (to_numeric text_to_float)
          (Workbook (survey\<lparr>body := answers [Number 8, Number 7, Number 6, Number 5,
                                                Number 4, Number 3, Number 2, Number 1] # ?rows\<rparr>))"
    using metadata_row_skipped [where tn = "to_numeric text_to_float" and df = survey
        and ?r0.0 = import_ids and rows = ?rows] by blast
  then show ?thesis using s by simp
qed

subsection \<open>C6\<close>

text \<open>
  C6. When the input file does not exist the program prints the loading line and the
  error line and returns early: no \<^verbatim>\<open>results/\<close> directory, no CSV file, no chart.
  The early return happens for no other input, and a run that creates the directory or
  writes a file is a completed one.
\<close>

theorem missing_file_no_outputs:
  "main tn NotFound =
     \<lparr>status = Returned_early, printed = [Loading_data, Error_file_not_found],
      results_dir = False, csv = None, png = None\<rparr> \<and>
   (status (main tn file) = Returned_early \<longrightarrow> file = NotFound) \<and>
   (results_dir (main tn file) \<or> csv (main tn file) \<noteq> None \<or> png (main tn file) \<noteq> None
      \<longrightarrow> status (main tn file) = Completed)"
  by (auto simp: main_def raise_def Let_def split: input_file.splits sum.splits)

theorem missing_file_no_outputs_witness:
  "status (main (to_numeric text_to_float) NotFound) = Returned_early \<and>
   csv (main (to_numeric text_to_float) NotFound) = None \<and>
   png (main (to_numeric text_to_float) NotFound) = None \<and>
   \<not> results_dir (main (to_numeric text_to_float) NotFound) \<and>
   results_dir (main (to_numeric text_to_float) (Workbook survey)) \<and>
   status (main (to_numeric text_to_float) (Workbook survey)) = Completed"
proof -
  have "results_dir (main (to_numeric text_to_float) (Workbook survey))"
    by (simp add: main_def Let_def survey_def survey_columns_def target_cols_def
        target_cols_indices_eq nth_append)
  then show ?thesis
    using missing_file_no_outputs [of "to_numeric text_to_float" "Workbook survey"]
    by simp
qed

subsection \<open>C7\<close>




subsection \<open>C8\<close>

text \<open>
  C8. A file that cannot be read raises; a sheet with fewer than 19 columns
  raises \<^verbatim>\<open>IndexError\<close>; a sheet with a header that is not text among the eight
  selected raises \<^verbatim>\<open>TypeError\<close>: none of them is caught, and the run leaves nothing but
  the loading line. Every other sheet is processed to the end: the directory and a table
  of 8 rows are written, and when no row survives cleaning (an entirely non-numeric
  dataset among them) every row of the table has a NaN average and the count 0.
\<close>

theorem only_load_and_layout_errors_raise:
  "main tn Unreadable = raise ReadError [Loading_data] \<and>
   status (main tn NotFound) = Returned_early \<and>
   (length (columns df) < 19 \<longrightarrow> main tn (Workbook df) = raise IndexError [Loading_data]) \<and>
   (19 \<le> length (columns df) \<and> NonStr \<in> set (map (\<lambda>i. columns df ! i) target_cols_indices)
      \<longrightarrow> main tn (Workbook df) = raise TypeError [Loading_data]) \<and>
   (19 \<le> length (columns df) \<and> NonStr \<notin> set (map (\<lambda>i. columns df ! i) target_cols_indices)
      \<longrightarrow> status (main tn (Workbook df)) = Completed \<and>
          results_dir (main tn (Workbook df)) \<and>
          (\<exists>table. csv (main tn (Workbook df)) = Some table \<and> length table = 8 \<and>
             (cleaned tn df = [] \<longrightarrow>
                list_all (\<lambda>r. Average_Rating r = NaN \<and> Count r = 0) table)))"
proof -
  have a: "main tn Unreadable = raise ReadError [Loading_data]"
    by (simp add: main_def)
  have b: "status (main tn NotFound) = Returned_early"
    by (simp add: main_def)
  have c: "main tn (Workbook df) = raise IndexError [Loading_data]" if "length (columns df) < 19"
    using that raised_no_outputs [of tn "Workbook df" IndexError] by (simp add: status_Workbook)
  have d: "main tn (Workbook df) = raise TypeError [Loading_data]"
    if "19 \<le> length (columns df) \<and> NonStr \<in> set (map (\<lambda>i. columns df ! i) target_cols_indices)"
    using that raised_no_outputs [of tn "Workbook df" TypeError] by (simp add: status_Workbook)
  have e: "status (main tn (Workbook df)) = Completed \<and>
          results_dir (main tn (Workbook df)) \<and>
          (\<exists>table. csv (main tn (Workbook df)) = Some table \<and> length table = 8 \<and>
             (cleaned tn df = [] \<longrightarrow>
                list_all (\<lambda>r. Average_Rating r = NaN \<and> Count r = 0) table))"
    if h: "19 \<le> length (columns df) \<and> NonStr \<notin> set (map (\<lambda>i. columns df ! i) target_cols_indices)"
  proof -
    have s: "status (main tn (Workbook df)) = Completed"
      using h by (simp add: status_Workbook)
    obtain cols names where tc: "target_cols (columns df) = Inr cols"
      and cn: "course_names cols = Inr names"
      using main_Completed [OF s] by auto
    have n: "length names = 8" using names_length_8 [OF tc cn] .
    have "list_all (\<lambda>r. Average_Rating r = NaN \<and> Count r = 0) (ranking names (cleaned tn df))"
      if "cleaned tn df = []"
      using ranking_all_nan [OF n that] that by (simp add: stats_frame_empty list_all_iff)
    then show ?thesis
      using s main_Workbook [OF tc cn, of tn] n by (simp add: length_ranking)
  qed
  from a b c d e show ?thesis by blast
qed

theorem only_load_and_layout_errors_raise_witness:
  "length (columns \<lparr>columns = [Str ''Respondent''], body = [[Empty]]\<rparr>) < 19 \<and>
   status (main (to_numeric text_to_float)
     (Workbook \<lparr>columns = [Str ''Respondent''], body = [[Empty]]\<rparr>)) = Raised IndexError \<and>
   19 \<le> length (columns (survey\<lparr>columns := replicate 19 NonStr\<rparr>)) \<and>
   status (main (to_numeric text_to_float)
     (Workbook (survey\<lparr>columns := replicate 19 NonStr\<rparr>))) = Raised TypeError \<and>
   19 \<le> length (columns unanswered) \<and>
   cleaned (to_numeric text_to_float) unanswered = [] \<and>
   status (main (to_numeric text_to_float) (Workbook unanswered)) = Completed"
proof -
  let ?short = "\<lparr>columns = [Str ''Respondent''], body = [[Empty]]\<rparr> :: cell dataframe"
  let ?typed = "survey\<lparr>columns := replicate 19 NonStr\<rparr>"
  have h1: "length (columns ?short) < 19" by simp
  have h2: "19 \<le> length (columns ?typed) \<and>
            NonStr \<in> set (map (\<lambda>i. columns ?typed ! i) target_cols_indices)"
    by (simp add: target_cols_indices_eq)
  have h3: "19 \<le> length (columns unanswered) \<and>
            NonStr \<notin> set (map (\<lambda>i. columns unanswered ! i) target_cols_indices)"
    by (simp add: survey_columns_of survey_columns_def target_cols_indices_eq nth_append)
  have c1: "status (main (to_numeric text_to_float) (Workbook ?short)) = Raised IndexError"
    using only_load_and_layout_errors_raise [of "to_numeric text_to_float" ?short] h1
    by (simp add: raise_def)
  have c2: "status (main (to_numeric text_to_float) (Workbook ?typed)) = Raised TypeError"
    using only_load_and_layout_errors_raise [of "to_numeric text_to_float" ?typed] h2
    by (simp add: raise_def)
  have c3: "status (main (to_numeric text_to_float) (Workbook unanswered)) = Completed"
    using only_load_and_layout_errors_raise [of "to_numeric text_to_float" unanswered] h3
    by blast
  from h1 h2 h3 c1 c2 c3 unanswered_cleaned show ?thesis by simp
qed

text \<open>
  A dataset without a single numeric cell does not make the program raise: the run
  completes and writes its outputs.
\<close>

theorem non_numeric_dataset_counterexample:
  "list_all (list_all (\<lambda>c. to_numeric text_to_float c = NaN)) (body unanswered) \<and>
   status (main (to_numeric text_to_float) (Workbook unanswered)) = Completed \<and>
   results_dir (main (to_numeric text_to_float) (Workbook unanswered)) \<and>
   csv (main (to_numeric text_to_float) (Workbook unanswered)) =
     Some [\<lparr>Course = ''Taxation'', Average_Rating = NaN, Count = 0\<rparr>,
           \<lparr>Course = ''Audit'', Average_Rating = NaN, Count = 0\<rparr>,
           \<lparr>Course = ''Ethics'', Average_Rating = NaN, Count = 0\<rparr>,
           \<lparr>Course = ''Strategy'', Average_Rating = NaN, Count = 0\<rparr>,
           \<lparr>Course = ''Finance'', Average_Rating = NaN, Count = 0\<rparr>,
           \<lparr>Course = ''Law'', Average_Rating = NaN, Count = 0\<rparr>,
           \<lparr>Course = ''Data'', Average_Rating = NaN, Count = 0\<rparr>,
           \<lparr>Course = ''Research'', Average_Rating = NaN, Count = 0\<rparr>]"
proof -
  have b: "list_all (list_all (\<lambda>c. to_numeric text_to_float c = NaN)) (body unanswered)"
    by (simp add: unanswered_def import_ids_def answers_def to_numeric_texts list_all_iff)
  have s: "status (main (to_numeric text_to_float) (Workbook unanswered)) = Completed"
    by (simp add: status_Workbook survey_columns_of)
      (simp add: survey_columns_def target_cols_indices_eq nth_append)
  have r: "results_dir (main (to_numeric text_to_float) (Workbook unanswered))"
    using main_Workbook [of unanswered _ _ "to_numeric text_to_float"]
      survey_target_cols survey_course_names
    by (simp add: survey_columns_of)
  from b s r unanswered_csv show ?thesis by simp
qed

subsection \<open>C9\<close>

text \<open>
  C9. The bars given to the chart are the (course, average) pairs of the table in
  reverse order: the top bar, the last one given, is the first row of the table, and the
  bottom bar is its last row.
\<close>

theorem chart_is_reversed_table:
  assumes "csv (main tn file) = Some table"
  shows "png (main tn file) = Some (rev (map (\<lambda>r. (Course r, Average_Rating r)) table)) \<and>
         png (main tn file) = Some (barh (rev table)) \<and>
         last (barh (rev table)) = (Course (table ! 0), Average_Rating (table ! 0)) \<and>
         barh (rev table) ! 0 = (Course (table ! 7), Average_Rating (table ! 7))"
proof -
  obtain df cols names where f: "file = Workbook df"
    and tc: "target_cols (columns df) = Inr cols" and cn: "course_names cols = Inr names"
    and t: "table = ranking names (cleaned tn df)"
    using main_csv_Some [OF assms] by blast
  have l: "length table = 8"
    using names_length_8 [OF tc cn] by (simp add: t length_ranking)
  then have ne: "table \<noteq> []" by auto
  have b: "barh (rev table) = rev (map (\<lambda>r. (Course r, Average_Rating r)) table)"
    using barh_plot_data [of table] by (simp add: plot_data_def)
  have p: "png (main tn file) = Some (barh (rev table))"
    using main_Workbook [OF tc cn, of tn] f t by (simp add: plot_data_def)
  have la: "last (barh (rev table)) = (Course (table ! 0), Average_Rating (table ! 0))"
    using ne by (simp add: b last_rev hd_map hd_conv_nth)
  have "barh (rev table) ! 0 = hd (barh (rev table))"
    using ne by (simp add: b hd_conv_nth)
  also have "\<dots> = (Course (last table), Average_Rating (last table))"
    using ne by (simp add: b hd_rev last_map)
  also have "last table = table ! 7"
    using ne l by (simp add: last_conv_nth)
  finally have h: "barh (rev table) ! 0 = (Course (table ! 7), Average_Rating (table ! 7))" .
  from p b la h show ?thesis by simp
qed

theorem chart_is_reversed_table_witness:
  "csv (main (to_numeric text_to_float) (Workbook survey)) =
     Some [\<lparr>Course = ''Audit'', Average_Rating = Finite 1, Count = 2\<rparr>,
           \<lparr>Course = ''Taxation'', Average_Rating = Finite (5 / 2), Count = 2\<rparr>,
           \<lparr>Course = ''Ethics'', Average_Rating = Finite (5 / 2), Count = 2\<rparr>,
           \<lparr>Course = ''Strategy'', Average_Rating = Finite 4, Count = 2\<rparr>,
           \<lparr>Course = ''Finance'', Average_Rating = Finite 5, Count = 2\<rparr>,
           \<lparr>Course = ''Law'', Average_Rating = Finite 6, Count = 2\<rparr>,
           \<lparr>Course = ''Data'', Average_Rating = Finite (15 / 2), Count = 2\<rparr>,
           \<lparr>Course = ''Research'', Average_Rating = Finite (15 / 2), Count = 2\<rparr>] \<and>
   png (main (to_numeric text_to_float) (Workbook survey)) =
     Some [(''Research'', Finite (15 / 2)), (''Data'', Finite (15 / 2)), (''Law'', Finite 6),
           (''Finance'', Finite 5), (''Strategy'', Finite 4), (''Ethics'', Finite (5 / 2)),
           (''Taxation'', Finite (5 / 2)), (''Audit'', Finite 1)]"
  using chart_is_reversed_table [OF survey_csv] survey_csv by simp

subsection \<open>C10\<close>

text \<open>
  C10. Every row of the table carries the same Count: the number of rows left after
  cleaning, which is the final count of the cleaning line the run prints.
\<close>

theorem counts_all_equal:
  assumes "csv (main tn (Workbook df)) = Some table"
  shows "(\<forall>r\<in>set table. Count r = length (cleaned tn df)) \<and>
         (\<forall>a\<in>set table. \<forall>b\<in>set table. Count a = Count b) \<and>
         Data_cleaning (length (iloc df)) (length (cleaned tn df))
           (length (iloc df) - length (cleaned tn df)) \<in> set (printed (main tn (Workbook df)))"
proof -
  obtain df' cols names where f: "Workbook df = Workbook df'"
    and tc: "target_cols (columns df') = Inr cols" and cn: "course_names cols = Inr names"
    and t: "table = ranking names (cleaned tn df')"
    using main_csv_Some [OF assms] by blast
  from f have df: "df' = df" by simp
  have n: "length names = 8" using names_length_8 [OF tc cn] .
  have a: "Count r = length (cleaned tn df)" if "r \<in> set table" for r
  proof -
    have "r \<in> set (stats_frame names (cleaned tn df))"
      using that by (simp add: t df ranking_def set_sort_values)
    then show ?thesis using stats_frame_row [OF n] by blast
  qed
  have p: "Data_cleaning (length (iloc df)) (length (cleaned tn df))
           (length (iloc df) - length (cleaned tn df)) \<in> set (printed (main tn (Workbook df)))"
    using main_Workbook [OF tc cn, of tn] df by simp
  from a p show ?thesis by simp
qed

theorem counts_all_equal_witness:
  "csv (main (to_numeric text_to_float) (Workbook survey)) =
     Some [\<lparr>Course = ''Audit'', Average_Rating = Finite 1, Count = 2\<rparr>,
           \<lparr>Course = ''Taxation'', Average_Rating = Finite (5 / 2), Count = 2\<rparr>,
           \<lparr>Course = ''Ethics'', Average_Rating = Finite (5 / 2), Count = 2\<rparr>,
           \<lparr>Course = ''Strategy'', Average_Rating = Finite 4, Count = 2\<rparr>,
           \<lparr>Course = ''Finance'', Average_Rating = Finite 5, Count = 2\<rparr>,
           \<lparr>Course = ''Law'', Average_Rating = Finite 6, Count = 2\<rparr>,
           \<lparr>Course = ''Data'', Average_Rating = Finite (15 / 2), Count = 2\<rparr>,
           \<lparr>Course = ''Research'', Average_Rating = Finite (15 / 2), Count = 2\<rparr>] \<and>
   length (cleaned (to_numeric text_to_float) survey) = 2 \<and>
   Data_cleaning 3 2 1 \<in> set (printed (main (to_numeric text_to_float) (Workbook survey)))"
proof -
  have l: "length (cleaned (to_numeric text_to_float) survey) = 2"
    by (simp add: survey_cleaned)
  have "Data_cleaning (length (iloc survey)) (length (cleaned (to_numeric text_to_float) survey))
          (length (iloc survey) - length (cleaned (to_numeric text_to_float) survey))
        \<in> set (printed (main (to_numeric text_to_float) (Workbook survey)))"
    using counts_all_equal [OF survey_csv] by blast
  then have "Data_cleaning 3 2 (3 - 2)
        \<in> set (printed (main (to_numeric text_to_float) (Workbook survey)))"
    by (simp only: l survey_iloc_length)
  then have "Data_cleaning 3 2 1
        \<in> set (printed (main (to_numeric text_to_float) (Workbook survey)))"
    by simp
  then show ?thesis using survey_csv l by simp
qed

end
